theory Spec2Isabelle
  imports Main
begin

section \<open>Data model of the reload coordinator\<close>

text \<open>
  The development embeds \<^verbatim>\<open>infinoted_config_reload\<close> (infinoted-config-reload.c) and
  the error enumeration of infinoted-plugin-manager.h. Heap objects (GObjects, GnuTLS and
  SASL handles) are represented by their fields together with an identity, so that
  "the same object" and "an equal object" can be told apart. Calls into the rest of
  libinfinity whose bodies decide nothing but their own success are taken from an
  environment record, one field per call site. Every call that acts on the outside world
  is written to an event list in the order of the C statements.

  The build that is modelled is the one without the optional Avahi and libdaemon
  sections and outside Windows (the \<^verbatim>\<open>#else\<close> branch of the plugin path).
\<close>

type_synonym obj_id = nat

record GError =
  domain :: string
  code :: int
  message :: string

text \<open>An address is its family and its raw bytes.\<close>

datatype InfIpAddress = InfIpv4 "nat list" | InfIpv6 "nat list"

definition INFINOTED_CONFIG_RELOAD_IPV6_ANY_ADDR :: "nat list" where
  "INFINOTED_CONFIG_RELOAD_IPV6_ANY_ADDR = [0, 0, 0, 0, 0, 0, 0, 0, 0, 0, 0, 0, 0, 0, 0, 0]"

definition inf_ip_address_new_raw6 :: "nat list \<Rightarrow> InfIpAddress" where
  "inf_ip_address_new_raw6 raw = InfIpv6 raw"

text \<open>
  The security policy type is declared outside the files at hand; the reload code names
  its three values in the comment on the Diffie-Hellman parameters (no-tls, allow-tls,
  require-tls) and only copies the value.
\<close>

datatype InfXmppConnectionSecurityPolicy = NO_TLS | ALLOW_TLS | REQUIRE_TLS

record InfinotedOptions =
  listen_address :: "InfIpAddress option"
  port :: nat
  security_policy :: InfXmppConnectionSecurityPolicy
  root_directory :: string
  plugins :: "string list"
  config_key_file :: "obj_id option"

record InfinotedStartup =
  options :: InfinotedOptions
  credentials :: "obj_id option"
  sasl_context :: "obj_id option"
  log :: obj_id

datatype InfdTcpServerStatus = TCP_CLOSED | TCP_BOUND | TCP_OPEN

record InfdTcpServer =
  tcp_id :: obj_id
  local_address :: "InfIpAddress option"
  local_port :: nat
  status :: InfdTcpServerStatus

record InfdXmppServer =
  xmpp_id :: obj_id
  tcp_server :: "InfdTcpServer option"
  xs_security_policy :: InfXmppConnectionSecurityPolicy
  xs_credentials :: "obj_id option"
  xs_sasl_context :: "obj_id option"
  xs_sasl_mechanisms :: "string option"

record InfXmppConnection =
  conn_id :: obj_id
  conn_sasl_context :: "obj_id option"
  conn_sasl_mechanisms :: "string option"
  conn_authenticating :: bool

text \<open>
  \<^verbatim>\<open>INF_IS_XMPP_CONNECTION\<close> is a run-time type test on an \<^verbatim>\<open>InfXmlConnection\<close>:
  the connection either is an XMPP connection or is of some other class.
\<close>

datatype InfXmlConnection = XmppConnection InfXmppConnection | OtherXmlConnection obj_id

text \<open>
  \<^verbatim>\<open>INFD_IS_FILESYSTEM_STORAGE\<close> is the same kind of test on the directory's storage.
\<close>

datatype InfdStorage = FilesystemStorage obj_id string | OtherStorage obj_id

record InfdDirectory =
  dir_id :: obj_id
  storage :: InfdStorage
  account_storage :: "obj_id option"
  connections :: "InfXmlConnection list"

record InfinotedPluginManager =
  pm_id :: obj_id
  pm_log :: obj_id
  pm_credentials :: "obj_id option"
  pm_plugins_requested :: "string list"
  pm_load_error :: "GError option"

record InfinotedRun =
  startup :: InfinotedStartup
  dh_params :: "obj_id option"
  xmpp6 :: "InfdXmppServer option"
  xmpp4 :: "InfdXmppServer option"
  pool :: "obj_id list"
  directory :: InfdDirectory
  plugin_manager :: "InfinotedPluginManager option"

subsection \<open>The error codes of the plugin manager\<close>

text \<open>
  \<^verbatim>\<open>typedef enum _InfinotedPluginManagerError\<close>, identical in both versions of
  infinoted-plugin-manager.h. A C enumeration numbers its constants from 0.
\<close>

datatype InfinotedPluginManagerError =
    INFINOTED_PLUGIN_MANAGER_ERROR_OPEN_FAILED
  | INFINOTED_PLUGIN_MANAGER_ERROR_NO_ENTRY_POINT

fun plugin_manager_error_code :: "InfinotedPluginManagerError \<Rightarrow> int" where
  "plugin_manager_error_code INFINOTED_PLUGIN_MANAGER_ERROR_OPEN_FAILED = 0"
| "plugin_manager_error_code INFINOTED_PLUGIN_MANAGER_ERROR_NO_ENTRY_POINT = 1"

subsection \<open>Outcomes, events and the environment\<close>

text \<open>
  A call of the reload function ends in one of four ways: it returns \<^verbatim>\<open>TRUE\<close>, it
  returns \<^verbatim>\<open>FALSE\<close> (with the content of \<^verbatim>\<open>*error\<close>, if it was set), a
  \<^verbatim>\<open>g_assert\<close> fails and aborts the process, or it passes a local pointer that was
  never assigned to \<^verbatim>\<open>g_object_unref\<close>, after which C gives no guarantee.
\<close>

datatype outcome =
    ReturnTrue
  | ReturnFalse "GError option"
  | AssertFailed string
  | UnrefUninitialised string

datatype property =
    P_credentials "obj_id option"
  | P_security_policy InfXmppConnectionSecurityPolicy
  | P_sasl_context "obj_id option"
  | P_sasl_mechanisms "string option"
  | P_storage obj_id
  | P_account_storage obj_id

datatype event =
    E_startup_new
  | E_startup_free InfinotedStartup
  | E_dh_params_ensure
  | E_tcp_server_new obj_id "InfIpAddress option" nat
  | E_tcp_server_bind obj_id bool
  | E_tcp_server_open obj_id bool
  | E_object_unref obj_id
  | E_filesystem_storage_new obj_id string
  | E_filesystem_account_storage_new obj_id
  | E_account_storage_set_filesystem obj_id obj_id bool
  | E_pool_remove_server obj_id
  | E_xml_server_close obj_id
  | E_xmpp_server_new obj_id obj_id
  | E_pool_add_server obj_id
  | E_object_set obj_id property
  | E_plugin_manager_new obj_id
  | E_plugin_manager_load obj_id string "string list" bool
  | E_options_drop_config_file
  | E_log_error obj_id string
  | E_reset_sasl_authentication obj_id "obj_id option" "string option"

text \<open>
  The environment fixes what the calls outside the reload function answer during one
  run of it: \<open>None\<close> in a \<open>GError option\<close> field means the call succeeded, \<open>Some e\<close>
  that it failed and set the error \<open>e\<close>. The identities are those of the objects the
  constructors return.
\<close>

record env =
  startup_new :: "GError + InfinotedStartup"
  dh_params_ensure :: "GError option"
  ip_address_collate :: "InfIpAddress \<Rightarrow> InfIpAddress \<Rightarrow> int"
  new_tcp6_id :: obj_id
  bind6 :: "GError option"
  new_tcp4_id :: obj_id
  bind4 :: "GError option"
  new_storage_id :: obj_id
  new_account_storage_id :: obj_id
  set_filesystem :: "GError option"
  open6 :: "GError option"
  open4 :: "GError option"
  new_xmpp6_id :: obj_id
  new_xmpp4_id :: obj_id
  plugin_path :: string
  new_plugin_manager_id :: obj_id
  plugin_manager_load :: "GError option"

text \<open>
  A stage of the function either leaves it (\<open>Return\<close>) or hands its results to the
  next stage (\<open>Continue\<close>); both carry the events of the stage.
\<close>

datatype 'a step = Return outcome "event list" | Continue 'a "event list"

fun bind_step :: "'a step \<Rightarrow> ('a \<Rightarrow> 'b step) \<Rightarrow> 'b step" where
  "bind_step (Return out tr) f = Return out tr"
| "bind_step (Continue a tr) f =
     (case f a of
        Return out tr' \<Rightarrow> Return out (tr @ tr')
      | Continue b tr' \<Rightarrow> Continue b (tr @ tr'))"

text \<open>
  A local pointer variable of the C function: declared without initialiser, it holds
  no value until the first assignment.
\<close>

datatype 'a local_var = Uninitialised | Assigned 'a

section \<open>The stages before the point of no return\<close>

subsection \<open>Lines 87 to 107: the new startup and the Diffie-Hellman parameters\<close>

definition load_startup :: "env \<Rightarrow> InfinotedStartup step" where
  "load_startup e =
     (case startup_new e of
        Inl err \<Rightarrow> Return (ReturnFalse (Some err)) [E_startup_new]
      | Inr st \<Rightarrow>
          (case credentials st of
             None \<Rightarrow> Continue st [E_startup_new]
           | Some c \<Rightarrow>
               (case dh_params_ensure e of
                  None \<Rightarrow> Continue st [E_startup_new, E_dh_params_ensure]
                | Some err \<Rightarrow>
                    Return (ReturnFalse (Some err))
                      [E_startup_new, E_dh_params_ensure, E_startup_free st])))"

subsection \<open>Lines 109 to 127: the listen address must not change\<close>

definition listen_address_changed ::
  "(InfIpAddress \<Rightarrow> InfIpAddress \<Rightarrow> int) \<Rightarrow> InfIpAddress option \<Rightarrow> InfIpAddress option \<Rightarrow> bool" where
  "listen_address_changed collate new old =
     ((new \<noteq> None \<and> old = None) \<or>
      (new = None \<and> old \<noteq> None) \<or>
      (case (new, old) of
         (Some a, Some b) \<Rightarrow> collate a b \<noteq> 0
       | _ \<Rightarrow> False))"

definition listen_address_error :: GError where
  "listen_address_error =
     \<lparr>domain = ''INFINOTED_CONFIG_RELOAD_ERROR'', code = 0,
      message = ''Changing the listen address at runtime is not supported''\<rparr>"

definition check_listen_address :: "env \<Rightarrow> InfinotedRun \<Rightarrow> InfinotedStartup \<Rightarrow> unit step" where
  "check_listen_address e run st =
     (if listen_address_changed (ip_address_collate e)
           (listen_address (options st)) (listen_address (options (startup run)))
      then Return (ReturnFalse (Some listen_address_error)) [E_startup_free st]
      else Continue () [])"

subsection \<open>Lines 129 to 142: the port the server runs on\<close>

definition server_tcp :: "InfdXmppServer option \<Rightarrow> InfdTcpServer option" where
  "server_tcp x = (case x of None \<Rightarrow> None | Some s \<Rightarrow> tcp_server s)"

definition current_port :: "InfinotedRun \<Rightarrow> nat option" where
  "current_port run =
     (let tcp6 = server_tcp (xmpp6 run);
          tcp4 = server_tcp (xmpp4 run)
      in if tcp4 \<noteq> None \<or> tcp6 \<noteq> None
         then (case tcp6 of
                 Some t \<Rightarrow> Some (local_port t)
               | None \<Rightarrow> map_option local_port tcp4)
         else None)"

definition find_current_port :: "InfinotedRun \<Rightarrow> nat step" where
  "find_current_port run =
     (case current_port run of
        None \<Rightarrow> Return (AssertFailed ''tcp4 != NULL || tcp6 != NULL'') []
      | Some p \<Rightarrow> Continue p [])"

subsection \<open>Lines 144 to 202: binding sockets for a new port\<close>

text \<open>
  The v6 socket is bound first, with no place for its error (\<^verbatim>\<open>NULL\<close>); the v4
  socket second, with \<^verbatim>\<open>&local_error\<close>. The result is the pair \<^verbatim>\<open>(tcp6, tcp4)\<close>
  of the C locals.
\<close>

definition bind_new_servers ::
  "env \<Rightarrow> InfinotedStartup \<Rightarrow> nat \<Rightarrow> (InfdTcpServer option \<times> InfdTcpServer option) step" where
  "bind_new_servers e st cur =
     (if port (options st) \<noteq> cur then
        (let addr4 = listen_address (options st);
             addr6 = (case listen_address (options st) of
                        None \<Rightarrow> Some (inf_ip_address_new_raw6 INFINOTED_CONFIG_RELOAD_IPV6_ANY_ADDR)
                      | Some a \<Rightarrow> Some a);
             new6 = \<lparr>tcp_id = new_tcp6_id e, local_address = addr6,
                     local_port = port (options st), status = TCP_BOUND\<rparr>;
             tcp6 = (case bind6 e of None \<Rightarrow> Some new6 | Some err \<Rightarrow> None);
             tr6 = [E_tcp_server_new (new_tcp6_id e) addr6 (port (options st)),
                    E_tcp_server_bind (new_tcp6_id e) (bind6 e = None)] @
                   (case bind6 e of None \<Rightarrow> [] | Some err \<Rightarrow> [E_object_unref (new_tcp6_id e)]);
             new4 = \<lparr>tcp_id = new_tcp4_id e, local_address = addr4,
                     local_port = port (options st), status = TCP_BOUND\<rparr>;
             tr4 = [E_tcp_server_new (new_tcp4_id e) addr4 (port (options st)),
                    E_tcp_server_bind (new_tcp4_id e) (bind4 e = None)]
         in case bind4 e of
              None \<Rightarrow> Continue (tcp6, Some new4) (tr6 @ tr4)
            | Some local_error \<Rightarrow>
                (if tcp6 \<noteq> None
                 then Continue (tcp6, None) (tr6 @ tr4 @ [E_object_unref (new_tcp4_id e)])
                 else Return (ReturnFalse (Some local_error))
                        (tr6 @ tr4 @ [E_object_unref (new_tcp4_id e), E_startup_free st])))
      else Continue (None, None) [])"

subsection \<open>Lines 207 to 242: a new storage for a new root directory\<close>

text \<open>
  \<^verbatim>\<open>g_object_unref(plugin_manager)\<close> on the local variable \<^verbatim>\<open>plugin_manager\<close>.
\<close>

definition g_object_unref_local :: "string \<Rightarrow> InfinotedPluginManager local_var \<Rightarrow> unit step" where
  "g_object_unref_local name v =
     (case v of
        Uninitialised \<Rightarrow> Return (UnrefUninitialised name) []
      | Assigned m \<Rightarrow> Continue () [E_object_unref (pm_id m)])"

definition swap_storage ::
  "env \<Rightarrow> InfinotedRun \<Rightarrow> InfinotedStartup \<Rightarrow> InfinotedPluginManager local_var \<Rightarrow>
   (obj_id \<times> obj_id) option step" where
  "swap_storage e run st pm =
     (case storage (directory run) of
        OtherStorage sid \<Rightarrow> Return (AssertFailed ''INFD_IS_FILESYSTEM_STORAGE(storage)'') []
      | FilesystemStorage sid root \<Rightarrow>
          (if root \<noteq> root_directory (options st) then
             (let fs = new_storage_id e;
                  acc = new_account_storage_id e;
                  tr = [E_filesystem_storage_new fs (root_directory (options st)),
                        E_filesystem_account_storage_new acc,
                        E_account_storage_set_filesystem acc fs (set_filesystem e = None)]
              in case set_filesystem e of
                   None \<Rightarrow> Continue (Some (fs, acc)) tr
                 | Some err \<Rightarrow>
                     bind_step (Continue () (tr @ [E_object_unref acc, E_object_unref fs])) (\<lambda>_.
                     bind_step (g_object_unref_local ''plugin_manager'' pm) (\<lambda>_.
                     Return (ReturnFalse (Some err)) [E_startup_free st])))
           else Continue None []))"

subsection \<open>Lines 244 to 283: opening the new sockets\<close>

text \<open>
  One leg: \<^verbatim>\<open>infd_tcp_server_open\<close> on a bound socket, which on failure is released
  and set to \<^verbatim>\<open>NULL\<close>. The result is the socket, the error the call set, and the events.
\<close>

definition open_leg ::
  "GError option \<Rightarrow> InfdTcpServer option \<Rightarrow> InfdTcpServer option \<times> GError option \<times> event list" where
  "open_leg res tcp =
     (case tcp of
        None \<Rightarrow> (None, None, [])
      | Some t \<Rightarrow>
          (case res of
             None \<Rightarrow> (Some (t\<lparr>status := TCP_OPEN\<rparr>), None, [E_tcp_server_open (tcp_id t) True])
           | Some err \<Rightarrow>
               (None, Some err, [E_tcp_server_open (tcp_id t) False, E_object_unref (tcp_id t)])))"

definition unref_new_storage :: "(obj_id \<times> obj_id) option \<Rightarrow> event list" where
  "unref_new_storage fs =
     (case fs of None \<Rightarrow> [] | Some (s, acc) \<Rightarrow> [E_object_unref s, E_object_unref acc])"

text \<open>
  The v4 call gets \<^verbatim>\<open>&local_error\<close> only when the v6 call has not set it, so
  \<^verbatim>\<open>local_error\<close> holds the error of the first call that failed.
\<close>

definition open_new_servers ::
  "env \<Rightarrow> InfinotedStartup \<Rightarrow> InfinotedPluginManager local_var \<Rightarrow> (obj_id \<times> obj_id) option \<Rightarrow>
   InfdTcpServer option \<times> InfdTcpServer option \<Rightarrow>
   (InfdTcpServer option \<times> InfdTcpServer option) step" where
  "open_new_servers e st pm fs bound =
     (case bound of (tcp6, tcp4) \<Rightarrow>
        (if tcp4 \<noteq> None \<or> tcp6 \<noteq> None then
           (case open_leg (open6 e) tcp6 of (tcp6', err6, tr6) \<Rightarrow>
            case open_leg (open4 e) tcp4 of (tcp4', err4, tr4) \<Rightarrow>
              (let local_error = (case err6 of Some x \<Rightarrow> Some x | None \<Rightarrow> err4)
               in if tcp4' = None \<and> tcp6' = None
                  then bind_step (Continue () (tr6 @ tr4)) (\<lambda>_.
                       bind_step (g_object_unref_local ''plugin_manager'' pm) (\<lambda>_.
                       Return (ReturnFalse local_error)
                         (unref_new_storage fs @ [E_startup_free st])))
                  else Continue (tcp6', tcp4') (tr6 @ tr4)))
         else Continue (None, None) []))"

subsection \<open>Everything that can fail\<close>

record locals =
  l_startup :: InfinotedStartup
  l_tcp6 :: "InfdTcpServer option"
  l_tcp4 :: "InfdTcpServer option"
  l_storage :: "(obj_id \<times> obj_id) option"

text \<open>
  The local \<^verbatim>\<open>plugin_manager\<close> is declared at the top of the function and first
  assigned by \<^verbatim>\<open>infinoted_plugin_manager_new\<close> in the plugin stage, so the two stages
  that release it before then receive it without a value.
\<close>

definition prepare :: "env \<Rightarrow> InfinotedRun \<Rightarrow> locals step" where
  "prepare e run =
     bind_step (load_startup e) (\<lambda>st.
     bind_step (check_listen_address e run st) (\<lambda>_.
     bind_step (find_current_port run) (\<lambda>cur.
     bind_step (bind_new_servers e st cur) (\<lambda>bound.
     bind_step (swap_storage e run st Uninitialised) (\<lambda>fs.
     bind_step (open_new_servers e st Uninitialised fs bound) (\<lambda>opened.
     Continue \<lparr>l_startup = st, l_tcp6 = fst opened, l_tcp4 = snd opened, l_storage = fs\<rparr> []))))))"

section \<open>The stages after the point of no return\<close>

subsection \<open>Setting properties\<close>

text \<open>
  \<^verbatim>\<open>g_object_set\<close> sets the listed properties one after the other, in the order of
  its arguments.
\<close>

fun set_xmpp_property :: "InfdXmppServer \<Rightarrow> property \<Rightarrow> InfdXmppServer" where
  "set_xmpp_property s (P_credentials c) = s\<lparr>xs_credentials := c\<rparr>"
| "set_xmpp_property s (P_security_policy p) = s\<lparr>xs_security_policy := p\<rparr>"
| "set_xmpp_property s (P_sasl_context c) = s\<lparr>xs_sasl_context := c\<rparr>"
| "set_xmpp_property s (P_sasl_mechanisms m) = s\<lparr>xs_sasl_mechanisms := m\<rparr>"
| "set_xmpp_property s (P_storage x) = s"
| "set_xmpp_property s (P_account_storage x) = s"

definition g_object_set_xmpp ::
  "InfdXmppServer option \<Rightarrow> property list \<Rightarrow> InfdXmppServer option \<times> event list" where
  "g_object_set_xmpp x props =
     (case x of
        None \<Rightarrow> (None, [])
      | Some s \<Rightarrow> (Some (foldl set_xmpp_property s props), map (E_object_set (xmpp_id s)) props))"

subsection \<open>Lines 287 to 376: the listeners\<close>

definition close_old_server :: "InfdXmppServer option \<Rightarrow> obj_id list \<Rightarrow> obj_id list \<times> event list" where
  "close_old_server x pl =
     (case x of
        None \<Rightarrow> (pl, [])
      | Some s \<Rightarrow>
          (removeAll (xmpp_id s) pl,
           [E_pool_remove_server (xmpp_id s), E_xml_server_close (xmpp_id s),
            E_object_unref (xmpp_id s)]))"

definition infd_xmpp_server_new ::
  "obj_id \<Rightarrow> InfdTcpServer \<Rightarrow> InfXmppConnectionSecurityPolicy \<Rightarrow> obj_id option \<Rightarrow>
   obj_id option \<Rightarrow> string option \<Rightarrow> InfdXmppServer" where
  "infd_xmpp_server_new i tcp policy creds sasl mechs =
     \<lparr>xmpp_id = i, tcp_server = Some tcp, xs_security_policy = policy, xs_credentials = creds,
      xs_sasl_context = sasl, xs_sasl_mechanisms = mechs\<rparr>"

definition install_new_server ::
  "obj_id \<Rightarrow> InfinotedStartup \<Rightarrow> InfdTcpServer option \<Rightarrow> obj_id list \<Rightarrow>
   InfdXmppServer option \<times> obj_id list \<times> event list" where
  "install_new_server i st tcp pl =
     (case tcp of
        None \<Rightarrow> (None, pl, [])
      | Some t \<Rightarrow>
          (Some (infd_xmpp_server_new i t (security_policy (options st)) (credentials st) None None),
           pl @ [i],
           [E_xmpp_server_new i (tcp_id t), E_object_unref (tcp_id t), E_pool_add_server i]))"

definition replace_servers :: "env \<Rightarrow> locals \<Rightarrow> InfinotedRun \<Rightarrow> InfinotedRun \<times> event list" where
  "replace_servers e l run =
     (if l_tcp4 l \<noteq> None \<or> l_tcp6 l \<noteq> None then
        (case close_old_server (xmpp6 run) (pool run) of (pool1, tr1) \<Rightarrow>
         case close_old_server (xmpp4 run) pool1 of (pool2, tr2) \<Rightarrow>
         case install_new_server (new_xmpp6_id e) (l_startup l) (l_tcp6 l) pool2 of (x6, pool3, tr3) \<Rightarrow>
         case install_new_server (new_xmpp4_id e) (l_startup l) (l_tcp4 l) pool3 of (x4, pool4, tr4) \<Rightarrow>
           (run\<lparr>xmpp6 := x6, xmpp4 := x4, pool := pool4\<rparr>, tr1 @ tr2 @ tr3 @ tr4))
      else
        (let props = [P_credentials (credentials (l_startup l)),
                      P_security_policy (security_policy (options (l_startup l)))]
         in case g_object_set_xmpp (xmpp6 run) props of (x6, tr6) \<Rightarrow>
            case g_object_set_xmpp (xmpp4 run) props of (x4, tr4) \<Rightarrow>
              (run\<lparr>xmpp6 := x6, xmpp4 := x4\<rparr>, tr6 @ tr4)))"

subsection \<open>Lines 378 to 452: the plugins\<close>

definition install_storage ::
  "locals \<Rightarrow> InfdDirectory \<Rightarrow> InfdDirectory \<times> event list" where
  "install_storage l dir =
     (case l_storage l of
        None \<Rightarrow> (dir, [])
      | Some (fs, acc) \<Rightarrow>
          (dir\<lparr>storage := FilesystemStorage fs (root_directory (options (l_startup l))),
               account_storage := Some acc\<rparr>,
           [E_object_set (dir_id dir) (P_storage fs),
            E_object_set (dir_id dir) (P_account_storage acc),
            E_object_unref fs, E_object_unref acc]))"

text \<open>
  \<^verbatim>\<open>infinoted_plugin_manager_new\<close> followed by \<^verbatim>\<open>infinoted_plugin_manager_load\<close>:
  the manager records what it was asked to load and what the load call answered.
\<close>

definition new_plugin_manager :: "env \<Rightarrow> InfinotedStartup \<Rightarrow> InfinotedPluginManager" where
  "new_plugin_manager e st =
     \<lparr>pm_id = new_plugin_manager_id e, pm_log = log st, pm_credentials = credentials st,
      pm_plugins_requested = plugins (options st), pm_load_error = plugin_manager_load e\<rparr>"

definition log_load_failure :: "InfinotedStartup \<Rightarrow> GError option \<Rightarrow> event list" where
  "log_load_failure st res =
     (case res of
        None \<Rightarrow> []
      | Some local_error \<Rightarrow>
          [E_log_error (log st) (''Failed to re-load plugins: '' @ message local_error),
           E_log_error (log st)
             ''Plugins are disabled. Please fix the problem and reload configuration again.''])"

definition infinoted_options_drop_config_file :: "InfinotedOptions \<Rightarrow> InfinotedOptions" where
  "infinoted_options_drop_config_file opts = opts\<lparr>config_key_file := None\<rparr>"

definition reload_plugins ::
  "env \<Rightarrow> locals \<Rightarrow> InfinotedRun \<Rightarrow> (InfinotedRun \<times> InfinotedStartup) step" where
  "reload_plugins e l run =
     (case plugin_manager run of
        None \<Rightarrow> Return (AssertFailed ''run->plugin_manager != NULL'') []
      | Some old \<Rightarrow>
          (case install_storage l (directory run) of (dir, tr_storage) \<Rightarrow>
             (let st = l_startup l;
                  pm = new_plugin_manager e st
              in Continue
                   (run\<lparr>directory := dir, plugin_manager := Some pm\<rparr>,
                    st\<lparr>options := infinoted_options_drop_config_file (options st)\<rparr>)
                   ([E_object_unref (pm_id old)] @ tr_storage @
                    [E_plugin_manager_new (pm_id pm),
                     E_plugin_manager_load (pm_id pm) (plugin_path e) (plugins (options st))
                       (plugin_manager_load e = None),
                     E_options_drop_config_file] @
                    log_load_failure st (plugin_manager_load e)))))"

subsection \<open>Lines 460 to 488: the SASL context\<close>

definition sasl_mechanisms_for :: "obj_id option \<Rightarrow> string option" where
  "sasl_mechanisms_for ctx = (if ctx \<noteq> None then Some ''PLAIN'' else None)"

text \<open>
  \<^verbatim>\<open>inf_xmpp_connection_reset_sasl_authentication\<close> lives in the XMPP connection
  class; the comment at its use says what it does: the connection gets the given
  context and mechanisms, and an authentication in progress is aborted.
\<close>

definition inf_xmpp_connection_reset_sasl_authentication ::
  "InfXmppConnection \<Rightarrow> obj_id option \<Rightarrow> string option \<Rightarrow> InfXmppConnection" where
  "inf_xmpp_connection_reset_sasl_authentication c ctx mechs =
     c\<lparr>conn_sasl_context := ctx, conn_sasl_mechanisms := mechs, conn_authenticating := False\<rparr>"

definition infinoted_config_reload_update_connection_sasl_context ::
  "InfXmlConnection \<Rightarrow> obj_id option \<Rightarrow> InfXmlConnection \<times> event list" where
  "infinoted_config_reload_update_connection_sasl_context xml userdata =
     (case xml of
        OtherXmlConnection i \<Rightarrow> (xml, [])
      | XmppConnection c \<Rightarrow>
          (XmppConnection
             (inf_xmpp_connection_reset_sasl_authentication c userdata (sasl_mechanisms_for userdata)),
           [E_reset_sasl_authentication (conn_id c) userdata (sasl_mechanisms_for userdata)]))"

definition infd_directory_foreach_connection ::
  "InfdDirectory \<Rightarrow> (InfXmlConnection \<Rightarrow> 'u \<Rightarrow> InfXmlConnection \<times> event list) \<Rightarrow> 'u \<Rightarrow>
   InfdDirectory \<times> event list" where
  "infd_directory_foreach_connection dir func userdata =
     (dir\<lparr>connections := map (\<lambda>c. fst (func c userdata)) (connections dir)\<rparr>,
      concat (map (\<lambda>c. snd (func c userdata)) (connections dir)))"

definition propagate_sasl_context :: "InfinotedStartup \<Rightarrow> InfinotedRun \<Rightarrow> InfinotedRun \<times> event list" where
  "propagate_sasl_context st run =
     (let props = [P_sasl_context (sasl_context st),
                   P_sasl_mechanisms (sasl_mechanisms_for (sasl_context st))]
      in case g_object_set_xmpp (xmpp4 run) props of (x4, tr4) \<Rightarrow>
         case g_object_set_xmpp (xmpp6 run) props of (x6, tr6) \<Rightarrow>
         case infd_directory_foreach_connection (directory run)
                infinoted_config_reload_update_connection_sasl_context (sasl_context st)
         of (dir, tr_conn) \<Rightarrow>
           (run\<lparr>xmpp4 := x4, xmpp6 := x6, directory := dir\<rparr>, tr4 @ tr6 @ tr_conn))"

subsection \<open>Lines 285 to 493 together\<close>

definition commit :: "env \<Rightarrow> locals \<Rightarrow> InfinotedRun \<Rightarrow> outcome \<times> InfinotedRun \<times> event list" where
  "commit e l run =
     (case replace_servers e l run of (run1, tr1) \<Rightarrow>
        (case reload_plugins e l run1 of
           Return out tr2 \<Rightarrow> (out, run1, tr1 @ tr2)
         | Continue res tr2 \<Rightarrow>
             (case res of (run2, st) \<Rightarrow>
              case propagate_sasl_context st run2 of (run3, tr3) \<Rightarrow>
                (ReturnTrue, run3\<lparr>startup := st\<rparr>,
                 tr1 @ tr2 @ tr3 @ [E_startup_free (startup run)]))))"

section \<open>The reload function\<close>

text \<open>
  \<^verbatim>\<open>infinoted_config_reload(run, error)\<close>: the way the call ends, the run structure
  afterwards, and the calls it made.
\<close>

definition infinoted_config_reload :: "env \<Rightarrow> InfinotedRun \<Rightarrow> outcome \<times> InfinotedRun \<times> event list" where
  "infinoted_config_reload e run =
     (case prepare e run of
        Return out tr \<Rightarrow> (out, run, tr)
      | Continue l tr \<Rightarrow>
          (case commit e l run of (out, run', tr') \<Rightarrow> (out, run', tr @ tr')))"

section \<open>A running server and some reloads of it\<close>

text \<open>
  A dual-stack server on port 6523 with TLS allowed, one plugin, one XMPP client in the
  middle of authenticating and one connection of another class.
\<close>

definition any6 :: InfIpAddress where
  "any6 = inf_ip_address_new_raw6 INFINOTED_CONFIG_RELOAD_IPV6_ANY_ADDR"

definition options0 :: InfinotedOptions where
  "options0 = \<lparr>listen_address = None, port = 6523, security_policy = ALLOW_TLS,
     root_directory = ''/srv/infinote'', plugins = [''autosave''], config_key_file = None\<rparr>"

definition startup0 :: InfinotedStartup where
  "startup0 = \<lparr>options = options0, credentials = Some 1, sasl_context = None, log = 2\<rparr>"

definition old6 :: InfdXmppServer where
  "old6 = \<lparr>xmpp_id = 10,
     tcp_server = Some \<lparr>tcp_id = 11, local_address = Some any6, local_port = 6523, status = TCP_OPEN\<rparr>,
     xs_security_policy = ALLOW_TLS, xs_credentials = Some 1,
     xs_sasl_context = None, xs_sasl_mechanisms = None\<rparr>"

definition old4 :: InfdXmppServer where
  "old4 = \<lparr>xmpp_id = 12,
     tcp_server = Some \<lparr>tcp_id = 13, local_address = None, local_port = 6523, status = TCP_OPEN\<rparr>,
     xs_security_policy = ALLOW_TLS, xs_credentials = Some 1,
     xs_sasl_context = None, xs_sasl_mechanisms = None\<rparr>"

definition client0 :: InfXmppConnection where
  "client0 = \<lparr>conn_id = 30, conn_sasl_context = None, conn_sasl_mechanisms = None,
     conn_authenticating = True\<rparr>"

definition directory0 :: InfdDirectory where
  "directory0 = \<lparr>dir_id = 20, storage = FilesystemStorage 21 ''/srv/infinote'',
     account_storage = Some 22, connections = [XmppConnection client0, OtherXmlConnection 31]\<rparr>"

definition manager0 :: InfinotedPluginManager where
  "manager0 = \<lparr>pm_id = 40, pm_log = 2, pm_credentials = Some 1,
     pm_plugins_requested = [''autosave''], pm_load_error = None\<rparr>"

definition run0 :: InfinotedRun where
  "run0 = \<lparr>startup = startup0, dh_params = Some 3, xmpp6 = Some old6, xmpp4 = Some old4,
     pool = [10, 12], directory = directory0, plugin_manager = Some manager0\<rparr>"

text \<open>The new configuration: port 6524, a second plugin, SASL switched on.\<close>

definition startup1 :: InfinotedStartup where
  "startup1 = \<lparr>options = options0\<lparr>port := 6524, plugins := [''autosave'', ''help'']\<rparr>,
     credentials = Some 4, sasl_context = Some 5, log = 6\<rparr>"

definition collate0 :: "InfIpAddress \<Rightarrow> InfIpAddress \<Rightarrow> int" where
  "collate0 a b = (if a = b then 0 else 1)"

definition env0 :: env where
  "env0 = \<lparr>startup_new = Inr startup1, dh_params_ensure = None, ip_address_collate = collate0,
     new_tcp6_id = 50, bind6 = None, new_tcp4_id = 51, bind4 = None,
     new_storage_id = 52, new_account_storage_id = 53, set_filesystem = None,
     open6 = None, open4 = None, new_xmpp6_id = 54, new_xmpp4_id = 55,
     plugin_path = ''/usr/lib/infinoted/plugins'', new_plugin_manager_id = 56,
     plugin_manager_load = None\<rparr>"

definition err_of :: "string \<Rightarrow> GError" where
  "err_of msg = \<lparr>domain = ''INF_NATIVE_SOCKET_ERROR'', code = 98, message = msg\<rparr>"

text \<open>Reloads of it in which one of the calls fails, or the listen address is new.\<close>

definition startup_addr :: InfinotedStartup where
  "startup_addr =
     startup1\<lparr>options := (options startup1)\<lparr>listen_address := Some (InfIpv4 [127, 0, 0, 1])\<rparr>\<rparr>"

definition env_addr :: env where
  "env_addr = env0\<lparr>startup_new := Inr startup_addr\<rparr>"

definition run_v4_only :: InfinotedRun where
  "run_v4_only = run0\<lparr>xmpp6 := None, pool := [12]\<rparr>"

definition run_no_listener :: InfinotedRun where
  "run_no_listener = run0\<lparr>xmpp6 := None, xmpp4 := None, pool := []\<rparr>"

definition startup_same_port :: InfinotedStartup where
  "startup_same_port = startup1\<lparr>options := (options startup1)\<lparr>port := 6523\<rparr>\<rparr>"

definition env_same_port :: env where
  "env_same_port = env0\<lparr>startup_new := Inr startup_same_port\<rparr>"

text \<open>
  Errors of the plugin manager's own domain, named in the header as
  \<^verbatim>\<open>INFINOTED_PLUGIN_MANAGER_ERROR\<close>.
\<close>

definition plugin_manager_error :: "InfinotedPluginManagerError \<Rightarrow> string \<Rightarrow> GError" where
  "plugin_manager_error k msg =
     \<lparr>domain = ''INFINOTED_PLUGIN_MANAGER_ERROR'', code = plugin_manager_error_code k, message = msg\<rparr>"

definition env_plugin_fail :: env where
  "env_plugin_fail =
     env_same_port\<lparr>plugin_manager_load :=
       Some (plugin_manager_error INFINOTED_PLUGIN_MANAGER_ERROR_OPEN_FAILED ''cannot open help'')\<rparr>"

definition env_open4_fail :: env where
  "env_open4_fail = env0\<lparr>open4 := Some (err_of ''listen v4'')\<rparr>"

definition env_open_fail :: env where
  "env_open_fail = env0\<lparr>open6 := Some (err_of ''listen v6''), open4 := Some (err_of ''listen v4'')\<rparr>"

definition env_bind6_fail :: env where
  "env_bind6_fail = env0\<lparr>bind6 := Some (err_of ''bind v6'')\<rparr>"

definition env_bind_fail :: env where
  "env_bind_fail = env0\<lparr>bind6 := Some (err_of ''bind v6''), bind4 := Some (err_of ''bind v4'')\<rparr>"

definition startup_new_root :: InfinotedStartup where
  "startup_new_root =
     startup_same_port\<lparr>options := (options startup_same_port)\<lparr>root_directory := ''/srv/other''\<rparr>\<rparr>"

definition env_storage_fail :: env where
  "env_storage_fail =
     env0\<lparr>startup_new := Inr startup_new_root, set_filesystem := Some (err_of ''no such directory'')\<rparr>"

section \<open>Loading plugins\<close>

text \<open>
  The descriptor a plugin module exports (\<^verbatim>\<open>struct _InfinotedPlugin\<close> of the header),
  as far as loading looks at it: its name, and what its \<^verbatim>\<open>on_initialize\<close> answers,
  \<open>None\<close> for \<^verbatim>\<open>TRUE\<close> and \<open>Some msg\<close> for \<^verbatim>\<open>FALSE\<close> with the message of the
  error it has set.
\<close>

record InfinotedPlugin =
  plugin_name :: string
  on_initialize :: "string option"

text \<open>
  A module file: it either exports the descriptor symbol or does not. The search path
  maps a plugin name to the module found for it, if one can be opened.
\<close>

record plugin_module =
  entry_point :: "InfinotedPlugin option"

text \<open>
  Modelled from the spec: the error taxonomy of the plugin manager (section 4.3), whose
  implementation file is not among the sources. \<open>ModuleOpenFailed\<close>: the module file is
  missing or cannot be loaded. \<open>NoEntryPoint\<close>: the module lacks the required descriptor
  symbol. \<open>PluginInitFailed\<close>: the plugin's own initialize returned failure with a
  message.
\<close>

datatype plugin_load_error = ModuleOpenFailed | NoEntryPoint | PluginInitFailed string

text \<open>
  Modelled from the spec: the steps of \<^verbatim>\<open>load\<close> for one requested name (section 4.3),
  whose body, \<^verbatim>\<open>infinoted_plugin_manager_load\<close>, is not among the sources: it opens the
  module, locates its descriptor, and invokes initialize. The specification names no
  error for the steps in between (checking the size of the global block, info-init,
  parsing the options), so they appear here as steps that do not fail. On an initialize
  failure the instance is discarded.
\<close>

definition load_plugin ::
  "(string \<Rightarrow> plugin_module option) \<Rightarrow> string \<Rightarrow> plugin_load_error + InfinotedPlugin" where
  "load_plugin path n =
     (case path n of
        None \<Rightarrow> Inl ModuleOpenFailed
      | Some m \<Rightarrow>
          (case entry_point m of
             None \<Rightarrow> Inl NoEntryPoint
           | Some d \<Rightarrow>
               (case on_initialize d of
                  Some msg \<Rightarrow> Inl (PluginInitFailed msg)
                | None \<Rightarrow> Inr d)))"

text \<open>
  Modelled from the spec: \<^verbatim>\<open>load(pluginNames, optionTable)\<close> of section 4.3, whose body
  is not among the sources. For each requested name in turn the plugin is loaded; on a
  failure the name and the error are recorded and loading continues with the remaining
  plugins. The result is the aggregate of all failures together with the instances that
  are live.
\<close>

fun load_plugins ::
  "(string \<Rightarrow> plugin_module option) \<Rightarrow> string list \<Rightarrow>
   (string \<times> plugin_load_error) list \<times> InfinotedPlugin list" where
  "load_plugins path [] = ([], [])"
| "load_plugins path (n # ns) =
     (case load_plugin path n of
        Inl err \<Rightarrow> ((n, err) # fst (load_plugins path ns), snd (load_plugins path ns))
      | Inr d \<Rightarrow> (fst (load_plugins path ns), d # snd (load_plugins path ns)))"

text \<open>A search path with one plugin that loads and three that fail, each in its own way.\<close>

definition plugin_autosave :: InfinotedPlugin where
  "plugin_autosave = \<lparr>plugin_name = ''autosave'', on_initialize = None\<rparr>"

definition plugin_picky :: InfinotedPlugin where
  "plugin_picky = \<lparr>plugin_name = ''picky'', on_initialize = Some ''unknown option''\<rparr>"

definition path0 :: "string \<Rightarrow> plugin_module option" where
  "path0 n =
     (if n = ''autosave'' then Some \<lparr>entry_point = Some plugin_autosave\<rparr>
      else if n = ''broken'' then Some \<lparr>entry_point = None\<rparr>
      else if n = ''picky'' then Some \<lparr>entry_point = Some plugin_picky\<rparr>
      else None)"

text \<open>One way for a caller to turn the failures into the error of the load call.\<close>

definition first_failure :: "(string \<times> plugin_load_error) list \<Rightarrow> GError option" where
  "first_failure fs =
     (case fs of
        [] \<Rightarrow> None
      | (n, err) # rest \<Rightarrow>
          Some (case err of
                  ModuleOpenFailed \<Rightarrow>
                    plugin_manager_error INFINOTED_PLUGIN_MANAGER_ERROR_OPEN_FAILED n
                | NoEntryPoint \<Rightarrow>
                    plugin_manager_error INFINOTED_PLUGIN_MANAGER_ERROR_NO_ENTRY_POINT n
                | PluginInitFailed msg \<Rightarrow> \<lparr>domain = n, code = 0, message = msg\<rparr>))"

text \<open>A new listen address together with a failing Diffie-Hellman step.\<close>

definition dh_error0 :: GError where
  "dh_error0 = \<lparr>domain = ''INFINOTED_DH_PARAMS'', code = 1,
     message = ''Failed to generate Diffie-Hellman parameters''\<rparr>"

definition env_addr_dh_fail :: env where
  "env_addr_dh_fail = env_addr\<lparr>dh_params_ensure := Some dh_error0\<rparr>"

subsection \<open>Reading the event list\<close>

fun step_trace :: "'a step \<Rightarrow> event list" where
  "step_trace (Return out tr) = tr"
| "step_trace (Continue a tr) = tr"

text \<open>The calls that create, bind, open, close, add or remove a listener.\<close>

fun touches_listeners :: "event \<Rightarrow> bool" where
  "touches_listeners (E_tcp_server_new i a p) = True"
| "touches_listeners (E_tcp_server_bind i ok) = True"
| "touches_listeners (E_tcp_server_open i ok) = True"
| "touches_listeners (E_xmpp_server_new i t) = True"
| "touches_listeners (E_pool_remove_server i) = True"
| "touches_listeners (E_xml_server_close i) = True"
| "touches_listeners (E_pool_add_server i) = True"
| "touches_listeners ev = False"

fun is_plugin_load :: "event \<Rightarrow> bool" where
  "is_plugin_load (E_plugin_manager_load i path names ok) = True"
| "is_plugin_load ev = False"

text \<open>\<open>directly_before a b tr\<close>: somewhere in \<open>tr\<close>, \<open>a\<close> is followed at once by \<open>b\<close>.\<close>

fun directly_before :: "'a \<Rightarrow> 'a \<Rightarrow> 'a list \<Rightarrow> bool" where
  "directly_before a b (x # y # zs) = ((x = a \<and> y = b) \<or> directly_before a b (y # zs))"
| "directly_before a b zs = False"

section \<open>Facts about the stages\<close>

lemma bind_step_Continue_iff:
  "bind_step m f = Continue b tr \<longleftrightarrow>
   (\<exists>a t1 t2. m = Continue a t1 \<and> f a = Continue b t2 \<and> tr = t1 @ t2)"
  by (cases m) (auto split: step.splits)

lemma bind_step_Return_iff:
  "bind_step m f = Return out tr \<longleftrightarrow>
   (m = Return out tr \<or> (\<exists>a t1 t2. m = Continue a t1 \<and> f a = Return out t2 \<and> tr = t1 @ t2))"
  by (cases m) (auto split: step.splits)

lemma load_startup_Continue:
  "load_startup e = Continue st tr \<Longrightarrow> startup_new e = Inr st"
  unfolding load_startup_def by (auto split: sum.splits option.splits)

lemma check_listen_address_Continue:
  "check_listen_address e run st = Continue u tr \<longleftrightarrow>
   \<not> listen_address_changed (ip_address_collate e)
       (listen_address (options st)) (listen_address (options (startup run))) \<and> tr = []"
  unfolding check_listen_address_def by auto

lemma listen_address_changedI:
  assumes "\<forall>a b. collate a b = 0 \<longrightarrow> a = b"
    and "new \<noteq> old"
  shows "listen_address_changed collate new old"
  using assms unfolding listen_address_changed_def
  by (cases new; cases old) auto

lemma find_current_port_Continue:
  "find_current_port run = Continue cur tr \<longleftrightarrow> current_port run = Some cur \<and> tr = []"
  unfolding find_current_port_def by (auto split: option.splits)

lemma bind_new_servers_Continue:
  "bind_new_servers e st cur = Continue b tr \<Longrightarrow>
   (fst b \<noteq> None \<longleftrightarrow> port (options st) \<noteq> cur \<and> bind6 e = None) \<and>
   (snd b \<noteq> None \<longleftrightarrow> port (options st) \<noteq> cur \<and> bind4 e = None)"
  unfolding bind_new_servers_def
  by (auto simp: Let_def split: if_splits option.splits)

lemma open_new_servers_Continue:
  "open_new_servers e st pm fs b = Continue b' tr \<Longrightarrow>
   (fst b' \<noteq> None \<longleftrightarrow> fst b \<noteq> None \<and> open6 e = None) \<and>
   (snd b' \<noteq> None \<longleftrightarrow> snd b \<noteq> None \<and> open4 e = None)"
  unfolding open_new_servers_def open_leg_def g_object_unref_local_def
  by (cases b) (auto simp: Let_def split: if_splits option.splits local_var.splits)

text \<open>
  What is known once every fallible stage has passed: the code's remark that beyond the
  bind stage \<^verbatim>\<open>tcp4\<close> or \<^verbatim>\<open>tcp6\<close> are non-null if the port was changed and the
  sockets could be bound, extended by the open stage.
\<close>

lemma prepare_Continue:
  assumes "prepare e run = Continue l tr"
  shows "startup_new e = Inr (l_startup l) \<and>
         \<not> listen_address_changed (ip_address_collate e)
             (listen_address (options (l_startup l))) (listen_address (options (startup run))) \<and>
         (\<exists>cur. current_port run = Some cur \<and>
            (l_tcp6 l \<noteq> None \<longleftrightarrow>
               port (options (l_startup l)) \<noteq> cur \<and> bind6 e = None \<and> open6 e = None) \<and>
            (l_tcp4 l \<noteq> None \<longleftrightarrow>
               port (options (l_startup l)) \<noteq> cur \<and> bind4 e = None \<and> open4 e = None))"
proof -
  from assms obtain st t1 cur b fs b' t4 t5 t6 where
    ls: "load_startup e = Continue st t1" and
    ch: "check_listen_address e run st = Continue () []" and
    cp: "current_port run = Some cur" and
    bd: "bind_new_servers e st cur = Continue b t4" and
    sw: "swap_storage e run st Uninitialised = Continue fs t5" and
    op: "open_new_servers e st Uninitialised fs b = Continue b' t6" and
    l: "l = \<lparr>l_startup = st, l_tcp6 = fst b', l_tcp4 = snd b', l_storage = fs\<rparr>"
    unfolding prepare_def
    by (auto simp: bind_step_Continue_iff find_current_port_Continue check_listen_address_Continue)
  show ?thesis
    using load_startup_Continue[OF ls] ch cp bind_new_servers_Continue[OF bd]
      open_new_servers_Continue[OF op] l
    by (auto simp: check_listen_address_Continue)
qed

lemma load_startup_Return: "load_startup e = Return out tr \<Longrightarrow> out \<noteq> ReturnTrue"
  unfolding load_startup_def by (auto split: sum.splits option.splits)

lemma check_listen_address_Return:
  "check_listen_address e run st = Return out tr \<Longrightarrow> out \<noteq> ReturnTrue"
  unfolding check_listen_address_def by (auto split: if_splits)

lemma find_current_port_Return: "find_current_port run = Return out tr \<Longrightarrow> out \<noteq> ReturnTrue"
  unfolding find_current_port_def by (auto split: option.splits)

lemma bind_new_servers_Return: "bind_new_servers e st cur = Return out tr \<Longrightarrow> out \<noteq> ReturnTrue"
  unfolding bind_new_servers_def by (auto simp: Let_def split: if_splits option.splits)

lemma swap_storage_Return: "swap_storage e run st pm = Return out tr \<Longrightarrow> out \<noteq> ReturnTrue"
  unfolding swap_storage_def g_object_unref_local_def
  by (auto simp: Let_def split: if_splits option.splits InfdStorage.splits local_var.splits)

lemma open_new_servers_Return:
  "open_new_servers e st pm fs b = Return out tr \<Longrightarrow> out \<noteq> ReturnTrue"
  unfolding open_new_servers_def g_object_unref_local_def
  by (auto simp: Let_def split: if_splits option.splits prod.splits local_var.splits)

text \<open>The function returns \<^verbatim>\<open>TRUE\<close> only from its last line.\<close>

lemma prepare_Return:
  assumes "prepare e run = Return out tr"
  shows "out \<noteq> ReturnTrue"
  using assms unfolding prepare_def
  by (auto simp: bind_step_Return_iff
      dest: load_startup_Return check_listen_address_Return find_current_port_Return
        bind_new_servers_Return swap_storage_Return open_new_servers_Return)

lemma update_connection_cases:
  "infinoted_config_reload_update_connection_sasl_context (OtherXmlConnection j) ctx =
     (OtherXmlConnection j, [])"
  "infinoted_config_reload_update_connection_sasl_context (XmppConnection c) ctx =
     (XmppConnection (c\<lparr>conn_sasl_context := ctx,
                        conn_sasl_mechanisms := (if ctx = None then None else Some ''PLAIN''),
                        conn_authenticating := False\<rparr>),
      [E_reset_sasl_authentication (conn_id c) ctx (if ctx = None then None else Some ''PLAIN'')])"
  unfolding infinoted_config_reload_update_connection_sasl_context_def
    inf_xmpp_connection_reset_sasl_authentication_def sasl_mechanisms_for_def
  by simp_all

lemma replace_servers_frame:
  "replace_servers e l run = (run', tr) \<Longrightarrow>
   directory run' = directory run \<and> plugin_manager run' = plugin_manager run \<and>
   startup run' = startup run \<and> dh_params run' = dh_params run"
  unfolding replace_servers_def
  by (auto simp: Let_def split: if_splits prod.splits)

lemma reload_plugins_Return:
  "reload_plugins e l run = Return out tr \<longleftrightarrow>
   plugin_manager run = None \<and> out = AssertFailed ''run->plugin_manager != NULL'' \<and> tr = []"
  unfolding reload_plugins_def
  by (auto simp: Let_def split: option.splits prod.splits)

lemma reload_plugins_Continue:
  "reload_plugins e l run = Continue (run', st) tr \<Longrightarrow>
   connections (directory run') = connections (directory run) \<and>
   sasl_context st = sasl_context (l_startup l) \<and>
   xmpp6 run' = xmpp6 run \<and> xmpp4 run' = xmpp4 run \<and> pool run' = pool run \<and>
   plugin_manager run' = Some (new_plugin_manager e (l_startup l)) \<and>
   plugin_manager run \<noteq> None"
  unfolding reload_plugins_def
  by (auto simp: Let_def install_storage_def split: option.splits prod.splits)

lemma propagate_sasl_context_connections:
  "propagate_sasl_context st run = (run', tr) \<Longrightarrow>
   connections (directory run') =
     map (\<lambda>c. fst (infinoted_config_reload_update_connection_sasl_context c (sasl_context st)))
       (connections (directory run))"
  unfolding propagate_sasl_context_def infd_directory_foreach_connection_def
  by (auto simp: Let_def split: prod.splits)

lemma commit_connections:
  assumes "commit e l run = (out, run', tr)"
  shows "connections (directory run') =
           (if out = ReturnTrue
            then map (\<lambda>c. fst (infinoted_config_reload_update_connection_sasl_context c
                                  (sasl_context (l_startup l))))
                   (connections (directory run))
            else connections (directory run))"
proof -
  obtain run1 tr1 where r: "replace_servers e l run = (run1, tr1)"
    by (cases "replace_servers e l run")
  note d = replace_servers_frame[OF r]
  show ?thesis
  proof (cases "reload_plugins e l run1")
    case (Return out2 tr2)
    then have "out = out2" "run' = run1"
      using assms r by (simp_all add: commit_def)
    moreover have "out2 \<noteq> ReturnTrue"
      using Return by (simp add: reload_plugins_Return)
    ultimately show ?thesis using d by simp
  next
    case (Continue res tr2)
    obtain run2 st where res: "res = (run2, st)" by (cases res)
    obtain run3 tr3 where p: "propagate_sasl_context st run2 = (run3, tr3)"
      by (cases "propagate_sasl_context st run2")
    have "out = ReturnTrue" "run' = run3\<lparr>startup := st\<rparr>"
      using assms r Continue res p by (simp_all add: commit_def)
    then show ?thesis
      using propagate_sasl_context_connections[OF p]
        reload_plugins_Continue[OF Continue[unfolded res]] d
      by simp
  qed
qed

lemma reload_connections:
  assumes "infinoted_config_reload e run = (out, run', tr)"
  shows "connections (directory run') =
           (if out = ReturnTrue
            then map (\<lambda>c. fst (infinoted_config_reload_update_connection_sasl_context c
                                  (case startup_new e of Inr st \<Rightarrow> sasl_context st | Inl x \<Rightarrow> None)))
                   (connections (directory run))
            else connections (directory run))"
proof (cases "prepare e run")
  case (Return out1 tr1)
  then have "run' = run" "out = out1"
    using assms by (simp_all add: infinoted_config_reload_def)
  then show ?thesis using prepare_Return[OF Return] by simp
next
  case (Continue l tr1)
  obtain out2 run2 tr2 where c: "commit e l run = (out2, run2, tr2)"
    by (cases "commit e l run")
  have "out = out2" "run' = run2"
    using assms Continue c by (simp_all add: infinoted_config_reload_def)
  then show ?thesis
    using commit_connections[OF c] prepare_Continue[OF Continue] by simp
qed

lemmas reload_defs =
  infinoted_config_reload_def prepare_def commit_def load_startup_def check_listen_address_def
  listen_address_changed_def find_current_port_def current_port_def server_tcp_def
  bind_new_servers_def swap_storage_def g_object_unref_local_def open_new_servers_def open_leg_def
  unref_new_storage_def replace_servers_def close_old_server_def install_new_server_def
  infd_xmpp_server_new_def g_object_set_xmpp_def reload_plugins_def install_storage_def
  new_plugin_manager_def log_load_failure_def infinoted_options_drop_config_file_def
  propagate_sasl_context_def infd_directory_foreach_connection_def
  infinoted_config_reload_update_connection_sasl_context_def
  inf_xmpp_connection_reset_sasl_authentication_def sasl_mechanisms_for_def

lemmas example_defs =
  any6_def options0_def startup0_def old6_def old4_def client0_def directory0_def manager0_def
  run0_def startup1_def collate0_def env0_def err_of_def startup_addr_def env_addr_def
  run_v4_only_def run_no_listener_def inf_ip_address_new_raw6_def
  INFINOTED_CONFIG_RELOAD_IPV6_ANY_ADDR_def startup_same_port_def env_same_port_def
  plugin_manager_error_def env_plugin_fail_def env_open4_fail_def env_open_fail_def
  env_bind6_fail_def env_bind_fail_def startup_new_root_def env_storage_fail_def
  dh_error0_def env_addr_dh_fail_def

section \<open>The listen address is fixed\<close>

text \<open>
  Claim C2, as the code has it. Whenever the new configuration could be read and its
  listen address is not the one of the running configuration (one of them absent and the
  other present, or two different addresses), the reload returns \<^verbatim>\<open>FALSE\<close> with an
  error and hands back the very run structure it was given: the same listeners, pool,
  directory and plugin manager. It does not fail at once: when the new configuration has
  credentials, the function first makes sure of the Diffie-Hellman parameters. The only
  calls made are those that read the configuration, that step, and the release of the
  new startup. The error is "Changing the listen address at runtime is not supported",
  except when the Diffie-Hellman step has failed: then it is that step's error. The
  comparison function is assumed to answer 0 for equal addresses only.
\<close>

theorem listen_address_change_rejected:
  assumes "startup_new e = Inr st"
    and "\<forall>a b. ip_address_collate e a b = 0 \<longrightarrow> a = b"
    and "listen_address (options st) \<noteq> listen_address (options (startup run))"
  shows "infinoted_config_reload e run =
           (case (credentials st, dh_params_ensure e) of
              (None, d) \<Rightarrow>
                (ReturnFalse (Some listen_address_error), run, [E_startup_new, E_startup_free st])
            | (Some c, None) \<Rightarrow>
                (ReturnFalse (Some listen_address_error), run,
                 [E_startup_new, E_dh_params_ensure, E_startup_free st])
            | (Some c, Some err) \<Rightarrow>
                (ReturnFalse (Some err), run,
                 [E_startup_new, E_dh_params_ensure, E_startup_free st]))"
proof -
  have ch: "listen_address_changed (ip_address_collate e)
              (listen_address (options st)) (listen_address (options (startup run)))"
    using assms(2,3) by (rule listen_address_changedI)
  show ?thesis
    using assms(1) ch
    unfolding infinoted_config_reload_def prepare_def load_startup_def check_listen_address_def
    by (auto split: option.splits)
qed

theorem listen_address_change_rejected_witness:
  "startup_new env_addr = Inr startup_addr \<and>
   ip_address_collate env_addr = collate0 \<and>
   listen_address (options startup_addr) = Some (InfIpv4 [127, 0, 0, 1]) \<and>
   listen_address (options (startup run0)) = None \<and>
   infinoted_config_reload env_addr run0 =
     (ReturnFalse (Some listen_address_error), run0,
      [E_startup_new, E_dh_params_ensure, E_startup_free startup_addr])"
proof -
  have h1: "startup_new env_addr = Inr startup_addr"
    by (simp add: example_defs)
  have h2: "\<forall>a b. ip_address_collate env_addr a b = 0 \<longrightarrow> a = b"
    by (simp add: example_defs)
  have h3: "listen_address (options startup_addr) \<noteq> listen_address (options (startup run0))"
    by (simp add: example_defs)
  have c: "credentials startup_addr = Some 4" "dh_params_ensure env_addr = None"
    by (simp_all add: example_defs)
  have d: "ip_address_collate env_addr = collate0"
    "listen_address (options startup_addr) = Some (InfIpv4 [127, 0, 0, 1])"
    "listen_address (options (startup run0)) = None"
    by (simp_all add: example_defs)
  show ?thesis
    using listen_address_change_rejected[OF h1 h2 h3] h1 c d by simp
qed

theorem listen_address_error_counterexample:
  "listen_address (options startup_addr) = Some (InfIpv4 [127, 0, 0, 1]) \<and>
   listen_address (options (startup run0)) = None \<and>
   startup_new env_addr_dh_fail = Inr startup_addr \<and>
   dh_params_ensure env_addr_dh_fail = Some dh_error0 \<and>
   infinoted_config_reload env_addr_dh_fail run0 =
     (ReturnFalse (Some dh_error0), run0,
      [E_startup_new, E_dh_params_ensure, E_startup_free startup_addr]) \<and>
   fst (infinoted_config_reload env_addr_dh_fail run0) \<noteq> ReturnFalse (Some listen_address_error) \<and>
   snd (snd (infinoted_config_reload env_addr run0)) =
     [E_startup_new, E_dh_params_ensure, E_startup_free startup_addr]"
  by (simp add: reload_defs example_defs Let_def listen_address_error_def)

section \<open>The port the server runs on\<close>

text \<open>
  Claim C9. The reload function asserts that the v6 or the v4 listener has a TCP server:
  reading the current port fails exactly when neither has one, and a reload that gets
  as far as this assertion without a TCP server stops there with the assertion failure,
  the run structure untouched. If one is there, the port is well defined: it is the local
  port of the v6 listener's TCP server when that exists, and of the v4 listener's
  otherwise.
\<close>

theorem current_port_needs_a_listener:
  "(current_port run = None \<longleftrightarrow>
      server_tcp (xmpp6 run) = None \<and> server_tcp (xmpp4 run) = None) \<and>
   (\<forall>t. server_tcp (xmpp6 run) = Some t \<longrightarrow> current_port run = Some (local_port t)) \<and>
   (\<forall>t. server_tcp (xmpp6 run) = None \<and> server_tcp (xmpp4 run) = Some t \<longrightarrow>
        current_port run = Some (local_port t)) \<and>
   (\<forall>st tr. load_startup e = Continue st tr \<and>
        \<not> listen_address_changed (ip_address_collate e)
            (listen_address (options st)) (listen_address (options (startup run))) \<and>
        server_tcp (xmpp6 run) = None \<and> server_tcp (xmpp4 run) = None \<longrightarrow>
        infinoted_config_reload e run = (AssertFailed ''tcp4 != NULL || tcp6 != NULL'', run, tr))"
  unfolding current_port_def infinoted_config_reload_def prepare_def check_listen_address_def
    find_current_port_def
  by (auto simp: Let_def split: option.splits)

theorem current_port_needs_a_listener_witness:
  "server_tcp (xmpp6 run0) = tcp_server old6 \<and> current_port run0 = Some 6523 \<and>
   server_tcp (xmpp6 run_v4_only) = None \<and> server_tcp (xmpp4 run_v4_only) = tcp_server old4 \<and>
   current_port run_v4_only = Some 6523 \<and>
   load_startup env0 = Continue startup1 [E_startup_new, E_dh_params_ensure] \<and>
   current_port run_no_listener = None \<and>
   infinoted_config_reload env0 run_no_listener =
     (AssertFailed ''tcp4 != NULL || tcp6 != NULL'', run_no_listener,
      [E_startup_new, E_dh_params_ensure])"
proof -
  have a: "server_tcp (xmpp6 run0) = tcp_server old6"
    "server_tcp (xmpp6 run_v4_only) = None" "server_tcp (xmpp4 run_v4_only) = tcp_server old4"
    "server_tcp (xmpp6 run_no_listener) = None" "server_tcp (xmpp4 run_no_listener) = None"
    by (simp_all add: server_tcp_def example_defs)
  have b: "tcp_server old6 =
             Some \<lparr>tcp_id = 11, local_address = Some any6, local_port = 6523, status = TCP_OPEN\<rparr>"
    "tcp_server old4 =
             Some \<lparr>tcp_id = 13, local_address = None, local_port = 6523, status = TCP_OPEN\<rparr>"
    by (simp_all add: old6_def old4_def)
  have c: "load_startup env0 = Continue startup1 [E_startup_new, E_dh_params_ensure]"
    by (simp add: load_startup_def example_defs)
  have d: "\<not> listen_address_changed (ip_address_collate env0)
              (listen_address (options startup1))
              (listen_address (options (startup run_no_listener)))"
    by (simp add: listen_address_changed_def example_defs)
  show ?thesis
    using current_port_needs_a_listener[of run0 env0]
      current_port_needs_a_listener[of run_v4_only env0]
      current_port_needs_a_listener[of run_no_listener env0] a b c d
    by simp
qed

section \<open>Connections and the SASL context\<close>

text \<open>
  Claim C10. A connection that is not an XMPP connection is the same after a reload as
  before it, whichever way the reload ends, and the walk over the connections makes no
  call for it. Only XMPP connections are touched, and only by a reload that succeeds:
  each gets the SASL context of the new startup, with the mechanism "PLAIN" when there is a
  context and no mechanism when there is none, and its authentication is reset.
\<close>

theorem sasl_context_only_on_xmpp_connections:
  assumes "infinoted_config_reload e run = (out, run', tr)"
    and "i < length (connections (directory run))"
  shows "length (connections (directory run')) = length (connections (directory run)) \<and>
         (\<forall>j. connections (directory run) ! i = OtherXmlConnection j \<longrightarrow>
               connections (directory run') ! i = OtherXmlConnection j \<and>
               snd (infinoted_config_reload_update_connection_sasl_context
                      (connections (directory run) ! i) ctx) = []) \<and>
         (\<forall>c st. connections (directory run) ! i = XmppConnection c \<and>
                 out = ReturnTrue \<and> startup_new e = Inr st \<longrightarrow>
               connections (directory run') ! i =
                 XmppConnection
                   (c\<lparr>conn_sasl_context := sasl_context st,
                      conn_sasl_mechanisms :=
                        (if sasl_context st = None then None else Some ''PLAIN''),
                      conn_authenticating := False\<rparr>)) \<and>
         (out \<noteq> ReturnTrue \<longrightarrow> connections (directory run') = connections (directory run))"
  using reload_connections[OF assms(1)] assms(2)
  by (auto simp: update_connection_cases)

theorem sasl_context_only_on_xmpp_connections_witness:
  "fst (infinoted_config_reload env0 run0) = ReturnTrue \<and>
   startup_new env0 = Inr startup1 \<and> sasl_context startup1 = Some 5 \<and>
   connections (directory run0) = [XmppConnection client0, OtherXmlConnection 31] \<and>
   connections (directory (fst (snd (infinoted_config_reload env0 run0)))) ! 1 =
     OtherXmlConnection 31 \<and>
   connections (directory (fst (snd (infinoted_config_reload env0 run0)))) ! 0 =
     XmppConnection
       (client0\<lparr>conn_sasl_context := Some 5, conn_sasl_mechanisms := Some ''PLAIN'',
               conn_authenticating := False\<rparr>)"
proof -
  have r: "infinoted_config_reload env0 run0 =
             (fst (infinoted_config_reload env0 run0),
              fst (snd (infinoted_config_reload env0 run0)),
              snd (snd (infinoted_config_reload env0 run0)))"
    by simp
  have out: "fst (infinoted_config_reload env0 run0) = ReturnTrue"
    by (simp add: reload_defs example_defs Let_def)
  have c: "connections (directory run0) = [XmppConnection client0, OtherXmlConnection 31]"
    "startup_new env0 = Inr startup1" "sasl_context startup1 = Some 5"
    by (simp_all add: example_defs)
  have i0: "0 < length (connections (directory run0))"
    and i1: "1 < length (connections (directory run0))"
    using c by simp_all
  show ?thesis
    using sasl_context_only_on_xmpp_connections[OF r i0]
      sasl_context_only_on_xmpp_connections[OF r i1] out c
    by simp
qed

section \<open>A reload that keeps the port\<close>

lemma directly_before_append_left: "directly_before a b tr \<Longrightarrow> directly_before a b (pre @ tr)"
proof (induction pre)
  case Nil then show ?case by simp
next
  case (Cons x pre)
  then show ?case by (cases "pre @ tr") auto
qed

lemma directly_before_append_right: "directly_before a b tr \<Longrightarrow> directly_before a b (tr @ post)"
  by (induction a b tr rule: directly_before.induct) auto

lemma bind_step_trace:
  assumes "\<forall>ev\<in>set (step_trace m). P ev"
    and "\<And>a t. m = Continue a t \<Longrightarrow> \<forall>ev\<in>set (step_trace (f a)). P ev"
  shows "\<forall>ev\<in>set (step_trace (bind_step m f)). P ev"
proof (cases m)
  case (Return out tr)
  then show ?thesis using assms(1) by simp
next
  case (Continue a tr)
  then show ?thesis using assms(1) assms(2)[OF Continue]
    by (cases "f a") auto
qed

lemma load_startup_trace: "\<forall>ev\<in>set (step_trace (load_startup e)). \<not> touches_listeners ev"
  unfolding load_startup_def by (auto split: sum.splits option.splits)

lemma check_listen_address_trace:
  "\<forall>ev\<in>set (step_trace (check_listen_address e run st)). \<not> touches_listeners ev"
  unfolding check_listen_address_def by (auto split: if_splits)

lemma find_current_port_trace: "step_trace (find_current_port run) = []"
  unfolding find_current_port_def by (auto split: option.splits)

lemma bind_new_servers_same_port:
  "bind_new_servers e st (port (options st)) = Continue (None, None) []"
  unfolding bind_new_servers_def by simp

lemma swap_storage_trace:
  "\<forall>ev\<in>set (step_trace (swap_storage e run st pm)). \<not> touches_listeners ev"
  unfolding swap_storage_def g_object_unref_local_def
  by (auto simp: Let_def split: if_splits option.splits InfdStorage.splits local_var.splits)

lemma open_new_servers_none:
  "open_new_servers e st pm fs (None, None) = Continue (None, None) []"
  unfolding open_new_servers_def by simp

lemma prepare_same_port_trace:
  assumes "startup_new e = Inr st" "current_port run = Some (port (options st))"
  shows "\<forall>ev\<in>set (step_trace (prepare e run)). \<not> touches_listeners ev"
  unfolding prepare_def
proof (intro bind_step_trace load_startup_trace check_listen_address_trace swap_storage_trace)
  show "\<forall>ev\<in>set (step_trace (find_current_port run)). \<not> touches_listeners ev"
    by (simp add: find_current_port_trace)
next
  fix st' t u t' cur t''
  assume "load_startup e = Continue st' t" "find_current_port run = Continue cur t''"
  then have "st' = st" "cur = port (options st)"
    using assms by (auto dest: load_startup_Continue simp: find_current_port_Continue)
  then show "\<forall>ev\<in>set (step_trace (bind_new_servers e st' cur)). \<not> touches_listeners ev"
    by (simp add: bind_new_servers_same_port)
next
  fix st' t u t' cur t'' b t3 fs t4
  assume "load_startup e = Continue st' t" "find_current_port run = Continue cur t''"
    "bind_new_servers e st' cur = Continue b t3"
  then have "st' = st" "cur = port (options st)"
    using assms by (auto dest: load_startup_Continue simp: find_current_port_Continue)
  with \<open>bind_new_servers e st' cur = Continue b t3\<close> have "b = (None, None)"
    by (simp add: bind_new_servers_same_port)
  then show "\<forall>ev\<in>set (step_trace (open_new_servers e st' Uninitialised fs b)). \<not> touches_listeners ev"
    by (simp add: open_new_servers_none)
next
  fix st' fs opened
  show "\<forall>ev\<in>set (step_trace (Continue \<lparr>l_startup = st', l_tcp6 = fst opened, l_tcp4 = snd opened, l_storage = fs\<rparr> [])). \<not> touches_listeners ev"
    by simp
qed


lemma foreach_connection_trace:
  "\<forall>ev\<in>set (snd (infd_directory_foreach_connection dir
       infinoted_config_reload_update_connection_sasl_context ctx)). \<not> touches_listeners ev"
  unfolding infd_directory_foreach_connection_def
    infinoted_config_reload_update_connection_sasl_context_def
  by (auto split: InfXmlConnection.splits)

lemma reload_plugins_trace:
  "\<forall>ev\<in>set (step_trace (reload_plugins e l run)). \<not> touches_listeners ev"
  unfolding reload_plugins_def install_storage_def log_load_failure_def
  by (auto simp: Let_def split: option.splits prod.splits)

lemma propagate_sasl_context_servers:
  assumes "propagate_sasl_context st run = (run', tr)"
  shows "pool run' = pool run \<and>
         xmpp6 run' = map_option (\<lambda>s. s\<lparr>xs_sasl_context := sasl_context st,
             xs_sasl_mechanisms := sasl_mechanisms_for (sasl_context st)\<rparr>) (xmpp6 run) \<and>
         xmpp4 run' = map_option (\<lambda>s. s\<lparr>xs_sasl_context := sasl_context st,
             xs_sasl_mechanisms := sasl_mechanisms_for (sasl_context st)\<rparr>) (xmpp4 run) \<and>
         plugin_manager run' = plugin_manager run \<and>
         (\<forall>ev\<in>set tr. \<not> touches_listeners ev)"
proof -
  have tr: "\<forall>ev\<in>set tr. \<not> touches_listeners ev"
    using assms foreach_connection_trace[of "directory run" "sasl_context st"]
    unfolding propagate_sasl_context_def g_object_set_xmpp_def
    by (auto simp: Let_def split: prod.splits option.splits)
  show ?thesis
    using assms tr unfolding propagate_sasl_context_def g_object_set_xmpp_def
      infd_directory_foreach_connection_def
    by (auto simp: Let_def split: prod.splits option.splits)
qed

lemma replace_servers_in_place:
  assumes "l_tcp6 l = None" "l_tcp4 l = None"
  shows "replace_servers e l run =
           (run\<lparr>xmpp6 := map_option (\<lambda>s. s\<lparr>xs_credentials := credentials (l_startup l),
                     xs_security_policy := security_policy (options (l_startup l))\<rparr>) (xmpp6 run),
                 xmpp4 := map_option (\<lambda>s. s\<lparr>xs_credentials := credentials (l_startup l),
                     xs_security_policy := security_policy (options (l_startup l))\<rparr>) (xmpp4 run)\<rparr>,
            (case xmpp6 run of None \<Rightarrow> [] | Some s \<Rightarrow>
               [E_object_set (xmpp_id s) (P_credentials (credentials (l_startup l))),
                E_object_set (xmpp_id s) (P_security_policy (security_policy (options (l_startup l))))]) @
            (case xmpp4 run of None \<Rightarrow> [] | Some s \<Rightarrow>
               [E_object_set (xmpp_id s) (P_credentials (credentials (l_startup l))),
                E_object_set (xmpp_id s) (P_security_policy (security_policy (options (l_startup l))))]))"
  using assms unfolding replace_servers_def g_object_set_xmpp_def
  by (auto simp: Let_def split: option.splits)

lemma commit_in_place:
  assumes n: "l_tcp6 l = None" "l_tcp4 l = None"
    and c: "commit e l run = (out, run', tr)"
  shows "(\<forall>ev\<in>set tr. \<not> touches_listeners ev) \<and> pool run' = pool run \<and>
         (\<forall>s. xmpp6 run = Some s \<longrightarrow>
            (\<exists>s'. xmpp6 run' = Some s' \<and> xmpp_id s' = xmpp_id s \<and> tcp_server s' = tcp_server s \<and>
               xs_credentials s' = credentials (l_startup l) \<and>
               xs_security_policy s' = security_policy (options (l_startup l))) \<and>
            directly_before
              (E_object_set (xmpp_id s) (P_credentials (credentials (l_startup l))))
              (E_object_set (xmpp_id s) (P_security_policy (security_policy (options (l_startup l)))))
              tr) \<and>
         (\<forall>s. xmpp4 run = Some s \<longrightarrow>
            (\<exists>s'. xmpp4 run' = Some s' \<and> xmpp_id s' = xmpp_id s \<and> tcp_server s' = tcp_server s \<and>
               xs_credentials s' = credentials (l_startup l) \<and>
               xs_security_policy s' = security_policy (options (l_startup l))) \<and>
            directly_before
              (E_object_set (xmpp_id s) (P_credentials (credentials (l_startup l))))
              (E_object_set (xmpp_id s) (P_security_policy (security_policy (options (l_startup l)))))
              tr) \<and>
         (xmpp6 run = None \<longrightarrow> xmpp6 run' = None) \<and> (xmpp4 run = None \<longrightarrow> xmpp4 run' = None)"
proof -
  let ?st = "l_startup l"
  let ?a = "\<lambda>s. E_object_set (xmpp_id s) (P_credentials (credentials ?st))"
  let ?b = "\<lambda>s. E_object_set (xmpp_id s) (P_security_policy (security_policy (options ?st)))"
  let ?t6 = "case xmpp6 run of None \<Rightarrow> [] | Some s \<Rightarrow> [?a s, ?b s]"
  let ?t4 = "case xmpp4 run of None \<Rightarrow> [] | Some s \<Rightarrow> [?a s, ?b s]"
  obtain run1 tr1 where r: "replace_servers e l run = (run1, tr1)"
    by (cases "replace_servers e l run")
  have run1: "xmpp6 run1 = map_option (\<lambda>s. s\<lparr>xs_credentials := credentials ?st,
                     xs_security_policy := security_policy (options ?st)\<rparr>) (xmpp6 run)"
      "xmpp4 run1 = map_option (\<lambda>s. s\<lparr>xs_credentials := credentials ?st,
                     xs_security_policy := security_policy (options ?st)\<rparr>) (xmpp4 run)"
      "pool run1 = pool run"
    and tr1: "tr1 = ?t6 @ ?t4"
    using r replace_servers_in_place[OF n, of e run] by auto
  have nt1: "\<forall>ev\<in>set tr1. \<not> touches_listeners ev"
    unfolding tr1 by (auto split: option.splits)
  have db6: "directly_before (?a s) (?b s) (tr1 @ post)" if "xmpp6 run = Some s" for s post
    using that unfolding tr1 by simp
  have db4: "directly_before (?a s) (?b s) (tr1 @ post)" if "xmpp4 run = Some s" for s post
    using that unfolding tr1
    by (simp add: directly_before_append_left[of _ _ "?a s # ?b s # post", simplified])
  show ?thesis
  proof (cases "reload_plugins e l run1")
    case (Return out2 tr2)
    then have e: "out = out2" "run' = run1" "tr = tr1 @ tr2"
      using c r by (simp_all add: commit_def)
    have "tr2 = []" using Return by (simp add: reload_plugins_Return)
    then show ?thesis
      using e run1 nt1 db6[of _ "[]"] db4[of _ "[]"] by auto
  next
    case (Continue res tr2)
    obtain run2 st where res: "res = (run2, st)" by (cases res)
    obtain run3 tr3 where p: "propagate_sasl_context st run2 = (run3, tr3)"
      by (cases "propagate_sasl_context st run2")
    have e: "out = ReturnTrue" "run' = run3\<lparr>startup := st\<rparr>"
      "tr = tr1 @ tr2 @ tr3 @ [E_startup_free (startup run)]"
      using c r Continue res p by (simp_all add: commit_def)
    have nt2: "\<forall>ev\<in>set tr2. \<not> touches_listeners ev"
      using reload_plugins_trace[of e l run1] Continue by simp
    note rp = reload_plugins_Continue[OF Continue[unfolded res]]
    note ps = propagate_sasl_context_servers[OF p]
    show ?thesis
      using e run1 nt1 nt2 rp ps db6 db4 by auto
  qed
qed


text \<open>
  Claim C7. When the port of the new configuration is the port the server is bound to,
  the reload makes no call that creates, binds, opens, closes, adds or removes a listener,
  however it ends; the pool is the same and each listener is the same object on the same
  TCP server. If the reload succeeds, each existing listener carries the credentials and
  the security policy of the new configuration, and on each the credentials were set
  directly before the security policy.
\<close>

theorem unchanged_port_keeps_listeners:
  assumes "startup_new e = Inr st"
    and "current_port run = Some (port (options st))"
    and "infinoted_config_reload e run = (out, run', tr)"
  shows "(\<forall>ev\<in>set tr. \<not> touches_listeners ev) \<and> pool run' = pool run \<and>
         (\<forall>s. xmpp6 run = Some s \<longrightarrow>
            (\<exists>s'. xmpp6 run' = Some s' \<and> xmpp_id s' = xmpp_id s \<and> tcp_server s' = tcp_server s)) \<and>
         (\<forall>s. xmpp4 run = Some s \<longrightarrow>
            (\<exists>s'. xmpp4 run' = Some s' \<and> xmpp_id s' = xmpp_id s \<and> tcp_server s' = tcp_server s)) \<and>
         (xmpp6 run = None \<longrightarrow> xmpp6 run' = None) \<and>
         (xmpp4 run = None \<longrightarrow> xmpp4 run' = None) \<and>
         (out = ReturnTrue \<longrightarrow>
            (\<forall>s s'. (xmpp6 run = Some s \<and> xmpp6 run' = Some s') \<or>
                    (xmpp4 run = Some s \<and> xmpp4 run' = Some s') \<longrightarrow>
               xs_credentials s' = credentials st \<and>
               xs_security_policy s' = security_policy (options st) \<and>
               directly_before
                 (E_object_set (xmpp_id s) (P_credentials (credentials st)))
                 (E_object_set (xmpp_id s) (P_security_policy (security_policy (options st))))
                 tr))"
proof (cases "prepare e run")
  case (Return out1 tr1)
  then have e: "run' = run" "out = out1" "tr = tr1"
    using assms(3) by (simp_all add: infinoted_config_reload_def)
  have "out \<noteq> ReturnTrue" using prepare_Return[OF Return] e by simp
  moreover have "\<forall>ev\<in>set tr. \<not> touches_listeners ev"
    using prepare_same_port_trace[OF assms(1,2)] Return e by simp
  ultimately show ?thesis using e by simp
next
  case (Continue l tr1)
  obtain out2 run2 tr2 where c: "commit e l run = (out2, run2, tr2)"
    by (cases "commit e l run")
  have e: "out = out2" "run' = run2" "tr = tr1 @ tr2"
    using assms(3) Continue c by (simp_all add: infinoted_config_reload_def)
  have l: "l_startup l = st" "l_tcp6 l = None" "l_tcp4 l = None"
    using prepare_Continue[OF Continue] assms(1,2) by auto
  have nt1: "\<forall>ev\<in>set tr1. \<not> touches_listeners ev"
    using prepare_same_port_trace[OF assms(1,2)] Continue by simp
  note ci = commit_in_place[OF l(2,3) c, unfolded l(1)]
  show ?thesis
    unfolding e using ci nt1
    by (auto intro: directly_before_append_left)
qed


theorem unchanged_port_keeps_listeners_witness:
  "startup_new env_same_port = Inr startup_same_port \<and>
   current_port run0 = Some 6523 \<and> port (options startup_same_port) = 6523 \<and>
   fst (infinoted_config_reload env_same_port run0) = ReturnTrue \<and>
   filter touches_listeners (snd (snd (infinoted_config_reload env_same_port run0))) = [] \<and>
   pool (fst (snd (infinoted_config_reload env_same_port run0))) = [10, 12] \<and>
   map_option xmpp_id (xmpp6 (fst (snd (infinoted_config_reload env_same_port run0)))) = Some 10 \<and>
   map_option xs_credentials (xmpp6 (fst (snd (infinoted_config_reload env_same_port run0)))) =
     Some (Some 4) \<and>
   map_option xs_credentials (xmpp4 (fst (snd (infinoted_config_reload env_same_port run0)))) =
     Some (Some 4) \<and>
   directly_before (E_object_set 12 (P_credentials (Some 4)))
     (E_object_set 12 (P_security_policy ALLOW_TLS))
     (snd (snd (infinoted_config_reload env_same_port run0)))"
proof -
  have h1: "startup_new env_same_port = Inr startup_same_port"
    by (simp add: example_defs)
  have p: "port (options startup_same_port) = 6523" "current_port run0 = Some 6523"
    by (simp_all add: current_port_def server_tcp_def example_defs)
  have h2: "current_port run0 = Some (port (options startup_same_port))"
    using p by simp
  have r: "infinoted_config_reload env_same_port run0 =
             (fst (infinoted_config_reload env_same_port run0),
              fst (snd (infinoted_config_reload env_same_port run0)),
              snd (snd (infinoted_config_reload env_same_port run0)))"
    by simp
  have v: "infinoted_config_reload env_same_port run0 =
     (ReturnTrue,
      run0\<lparr>startup := startup_same_port,
           xmpp6 := Some (old6\<lparr>xs_credentials := Some 4, xs_sasl_context := Some 5,
                               xs_sasl_mechanisms := Some ''PLAIN''\<rparr>),
           xmpp4 := Some (old4\<lparr>xs_credentials := Some 4, xs_sasl_context := Some 5,
                               xs_sasl_mechanisms := Some ''PLAIN''\<rparr>),
           directory := directory0\<lparr>connections :=
             [XmppConnection (client0\<lparr>conn_sasl_context := Some 5,
                 conn_sasl_mechanisms := Some ''PLAIN'', conn_authenticating := False\<rparr>),
              OtherXmlConnection 31]\<rparr>,
           plugin_manager := Some (new_plugin_manager env_same_port startup_same_port)\<rparr>,
      [E_startup_new, E_dh_params_ensure,
       E_object_set 10 (P_credentials (Some 4)), E_object_set 10 (P_security_policy ALLOW_TLS),
       E_object_set 12 (P_credentials (Some 4)), E_object_set 12 (P_security_policy ALLOW_TLS),
       E_object_unref 40, E_plugin_manager_new 56,
       E_plugin_manager_load 56 ''/usr/lib/infinoted/plugins'' [''autosave'', ''help''] True,
       E_options_drop_config_file,
       E_object_set 12 (P_sasl_context (Some 5)), E_object_set 12 (P_sasl_mechanisms (Some ''PLAIN'')),
       E_object_set 10 (P_sasl_context (Some 5)), E_object_set 10 (P_sasl_mechanisms (Some ''PLAIN'')),
       E_reset_sasl_authentication 30 (Some 5) (Some ''PLAIN''),
       E_startup_free startup0])"
    by (simp add: reload_defs example_defs Let_def)
  show ?thesis
    using unchanged_port_keeps_listeners[OF h1 h2 r] h1 p
    by (simp add: v) (simp add: example_defs)
qed

section \<open>A reload whose plugins do not load\<close>

lemma stages_ignore_plugin_load:
  "load_startup (e\<lparr>plugin_manager_load := x\<rparr>) = load_startup e"
  "check_listen_address (e\<lparr>plugin_manager_load := x\<rparr>) run st = check_listen_address e run st"
  "bind_new_servers (e\<lparr>plugin_manager_load := x\<rparr>) st cur = bind_new_servers e st cur"
  "swap_storage (e\<lparr>plugin_manager_load := x\<rparr>) run st pm = swap_storage e run st pm"
  "open_new_servers (e\<lparr>plugin_manager_load := x\<rparr>) st pm fs b = open_new_servers e st pm fs b"
  unfolding load_startup_def check_listen_address_def bind_new_servers_def swap_storage_def
    open_new_servers_def
  by (simp_all add: Let_def
      split: sum.splits option.splits if_splits InfdStorage.splits prod.splits)

lemma prepare_ignores_plugin_load:
  "prepare (e\<lparr>plugin_manager_load := x\<rparr>) run = prepare e run"
  by (simp add: prepare_def stages_ignore_plugin_load)

lemma replace_servers_ignores_plugin_load:
  "replace_servers (e\<lparr>plugin_manager_load := x\<rparr>) l run = replace_servers e l run"
  by (simp add: replace_servers_def)

lemma reload_plugins_with_result:
  "reload_plugins e l run =
     (case plugin_manager run of
        None \<Rightarrow> Return (AssertFailed ''run->plugin_manager != NULL'') []
      | Some old \<Rightarrow>
          Continue
            (run\<lparr>directory := fst (install_storage l (directory run)),
                 plugin_manager := Some (new_plugin_manager e (l_startup l))\<rparr>,
             (l_startup l)\<lparr>options := infinoted_options_drop_config_file (options (l_startup l))\<rparr>)
            ([E_object_unref (pm_id old)] @ snd (install_storage l (directory run)) @
             [E_plugin_manager_new (new_plugin_manager_id e),
              E_plugin_manager_load (new_plugin_manager_id e) (plugin_path e)
                (plugins (options (l_startup l))) (plugin_manager_load e = None),
              E_options_drop_config_file] @
             log_load_failure (l_startup l) (plugin_manager_load e)))"
  unfolding reload_plugins_def new_plugin_manager_def
  by (auto simp: Let_def split: option.splits prod.splits)

lemma propagate_sasl_context_plugin_manager:
  "fst (propagate_sasl_context st (run\<lparr>plugin_manager := m\<rparr>)) =
     (fst (propagate_sasl_context st run))\<lparr>plugin_manager := m\<rparr> \<and>
   snd (propagate_sasl_context st (run\<lparr>plugin_manager := m\<rparr>)) =
     snd (propagate_sasl_context st run)"
  unfolding propagate_sasl_context_def
  by (auto simp: Let_def split: prod.splits)

lemma commit_after_assert:
  assumes r: "replace_servers e l run = (run1, tr1)"
    and m: "plugin_manager run1 = Some old"
  shows "commit e l run =
           (ReturnTrue,
            (fst (propagate_sasl_context
                   ((l_startup l)\<lparr>options := infinoted_options_drop_config_file (options (l_startup l))\<rparr>)
                   (run1\<lparr>directory := fst (install_storage l (directory run1))\<rparr>)))
              \<lparr>plugin_manager := Some (new_plugin_manager e (l_startup l)),
               startup := (l_startup l)\<lparr>options := infinoted_options_drop_config_file (options (l_startup l))\<rparr>\<rparr>,
            tr1 @ step_trace (reload_plugins e l run1) @
            snd (propagate_sasl_context
                   ((l_startup l)\<lparr>options := infinoted_options_drop_config_file (options (l_startup l))\<rparr>)
                   (run1\<lparr>directory := fst (install_storage l (directory run1))\<rparr>)) @
            [E_startup_free (startup run)])"
proof -
  let ?st = "(l_startup l)\<lparr>options := infinoted_options_drop_config_file (options (l_startup l))\<rparr>"
  let ?run2 = "run1\<lparr>directory := fst (install_storage l (directory run1))\<rparr>"
  let ?m = "Some (new_plugin_manager e (l_startup l))"
  obtain tr2 where rp: "reload_plugins e l run1 = Continue (?run2\<lparr>plugin_manager := ?m\<rparr>, ?st) tr2"
    using m by (simp add: reload_plugins_with_result)
  obtain run3 tr3 where p: "propagate_sasl_context ?st (?run2\<lparr>plugin_manager := ?m\<rparr>) = (run3, tr3)"
    by (cases "propagate_sasl_context ?st (?run2\<lparr>plugin_manager := ?m\<rparr>)")
  have c: "commit e l run = (ReturnTrue, run3\<lparr>startup := ?st\<rparr>, tr1 @ tr2 @ tr3 @ [E_startup_free (startup run)])"
    unfolding commit_def r using rp p by simp
  have run3: "run3 = (fst (propagate_sasl_context ?st ?run2))\<lparr>plugin_manager := ?m\<rparr>"
    and tr3: "tr3 = snd (propagate_sasl_context ?st ?run2)"
    using propagate_sasl_context_plugin_manager[where st="?st" and run="?run2" and m="?m"] p
    by simp_all
  show ?thesis
    unfolding c run3 tr3 using rp by simp
qed


lemma commit_assert_fails:
  assumes r: "replace_servers e l run = (run1, tr1)"
    and m: "plugin_manager run1 = None"
  shows "commit e l run = (AssertFailed ''run->plugin_manager != NULL'', run1, tr1)"
  unfolding commit_def r using m by (simp add: reload_plugins_with_result)

lemma directly_before_mid: "directly_before a b (pre @ a # b # post)"
  by (rule directly_before_append_left) simp

lemma stage_traces_no_plugin_load:
  "\<forall>ev\<in>set (step_trace (load_startup e)). \<not> is_plugin_load ev"
  "\<forall>ev\<in>set (step_trace (check_listen_address e run st)). \<not> is_plugin_load ev"
  "\<forall>ev\<in>set (step_trace (find_current_port run)). \<not> is_plugin_load ev"
  "\<forall>ev\<in>set (step_trace (bind_new_servers e st cur)). \<not> is_plugin_load ev"
  "\<forall>ev\<in>set (step_trace (swap_storage e run st pm)). \<not> is_plugin_load ev"
  unfolding load_startup_def check_listen_address_def find_current_port_def bind_new_servers_def
    swap_storage_def g_object_unref_local_def
  by (auto simp: Let_def
      split: sum.splits option.splits if_splits InfdStorage.splits local_var.splits)

lemma open_leg_trace_no_plugin_load:
  "open_leg res tcp = (tcp', err, tr) \<Longrightarrow> \<forall>ev\<in>set tr. \<not> is_plugin_load ev"
  unfolding open_leg_def by (auto split: option.splits)

lemma open_new_servers_trace_no_plugin_load:
  "\<forall>ev\<in>set (step_trace (open_new_servers e st pm fs b)). \<not> is_plugin_load ev"
proof -
  obtain tcp6 tcp4 where b: "b = (tcp6, tcp4)" by (cases b)
  obtain a6 e6 t6 where o6: "open_leg (open6 e) tcp6 = (a6, e6, t6)"
    by (cases "open_leg (open6 e) tcp6")
  obtain a4 e4 t4 where o4: "open_leg (open4 e) tcp4 = (a4, e4, t4)"
    by (cases "open_leg (open4 e) tcp4")
  show ?thesis
    using open_leg_trace_no_plugin_load[OF o6] open_leg_trace_no_plugin_load[OF o4]
    unfolding open_new_servers_def b g_object_unref_local_def unref_new_storage_def
    by (auto simp: o6 o4 Let_def split: local_var.splits option.splits)
qed

lemma prepare_trace_no_plugin_load:
  "\<forall>ev\<in>set (step_trace (prepare e run)). \<not> is_plugin_load ev"
  unfolding prepare_def
  by (intro bind_step_trace stage_traces_no_plugin_load open_new_servers_trace_no_plugin_load) simp

lemma replace_servers_trace_no_plugin_load:
  "\<forall>ev\<in>set (snd (replace_servers e l run)). \<not> is_plugin_load ev"
  unfolding replace_servers_def close_old_server_def install_new_server_def g_object_set_xmpp_def
  by (auto simp: Let_def split: option.splits)

lemma propagate_sasl_context_trace_no_plugin_load:
  "\<forall>ev\<in>set (snd (propagate_sasl_context st run)). \<not> is_plugin_load ev"
  unfolding propagate_sasl_context_def g_object_set_xmpp_def infd_directory_foreach_connection_def
    infinoted_config_reload_update_connection_sasl_context_def
  by (auto simp: Let_def split: option.splits InfXmlConnection.splits)

lemma install_storage_trace_no_plugin_load:
  "\<forall>ev\<in>set (snd (install_storage l dir)). \<not> is_plugin_load ev"
  unfolding install_storage_def by (auto split: option.splits)


lemma reload_ignores_plugin_load:
  "fst (infinoted_config_reload (e\<lparr>plugin_manager_load := x\<rparr>) run) =
     fst (infinoted_config_reload e run)"
proof (cases "prepare e run")
  case (Return out tr)
  then show ?thesis
    by (simp add: infinoted_config_reload_def prepare_ignores_plugin_load)
next
  case (Continue l tr)
  let ?ex = "e\<lparr>plugin_manager_load := x\<rparr>"
  obtain run1 trr where r: "replace_servers e l run = (run1, trr)"
    by (cases "replace_servers e l run")
  have rx: "replace_servers ?ex l run = (run1, trr)"
    using r by (simp add: replace_servers_ignores_plugin_load)
  have px: "prepare ?ex run = Continue l tr"
    using Continue by (simp add: prepare_ignores_plugin_load)
  show ?thesis
  proof (cases "plugin_manager run1")
    case None
    show ?thesis
      using Continue px commit_assert_fails[OF r None] commit_assert_fails[OF rx None]
      by (simp add: infinoted_config_reload_def)
  next
    case (Some old)
    show ?thesis
      using Continue px commit_after_assert[OF r Some] commit_after_assert[OF rx Some]
      by (simp add: infinoted_config_reload_def)
  qed
qed

text \<open>
  Claim C6. If the reload calls \<^verbatim>\<open>infinoted_plugin_manager_load\<close> and the call fails,
  the reload still returns \<^verbatim>\<open>TRUE\<close>. The two messages "Failed to re-load plugins: ..."
  and "Plugins are disabled. ..." are written to the log of the new startup, one directly
  after the other; the error goes nowhere else. The manager whose load failed is the one
  the server keeps, and everything else in the run structure is what a reload with
  loadable plugins would have left.
\<close>

theorem plugin_load_failure_is_only_logged:
  assumes "plugin_manager_load e = Some err"
    and "infinoted_config_reload e run = (out, run', tr)"
    and "E_plugin_manager_load i path names ok \<in> set tr"
  shows "out = ReturnTrue \<and> \<not> ok \<and>
         (\<exists>st. startup_new e = Inr st \<and>
            plugin_manager run' = Some (new_plugin_manager e st) \<and>
            pm_load_error (new_plugin_manager e st) = Some err \<and>
            directly_before
              (E_log_error (log st) (''Failed to re-load plugins: '' @ message err))
              (E_log_error (log st)
                 ''Plugins are disabled. Please fix the problem and reload configuration again.'')
              tr \<and>
            fst (infinoted_config_reload (e\<lparr>plugin_manager_load := None\<rparr>) run) = ReturnTrue \<and>
            fst (snd (infinoted_config_reload (e\<lparr>plugin_manager_load := None\<rparr>) run)) =
              run'\<lparr>plugin_manager :=
                    Some (new_plugin_manager (e\<lparr>plugin_manager_load := None\<rparr>) st)\<rparr>)"
proof (cases "prepare e run")
  case (Return out1 tr1)
  then have "tr = tr1" using assms(2) by (simp add: infinoted_config_reload_def)
  then have False
    using prepare_trace_no_plugin_load[of e run] Return assms(3) by auto
  then show ?thesis ..
next
  case (Continue l tr1)
  let ?e0 = "e\<lparr>plugin_manager_load := None\<rparr>"
  let ?st = "l_startup l"
  let ?st' = "?st\<lparr>options := infinoted_options_drop_config_file (options ?st)\<rparr>"
  obtain run1 trr where r: "replace_servers e l run = (run1, trr)"
    by (cases "replace_servers e l run")
  have r0: "replace_servers ?e0 l run = (run1, trr)"
    using r by (simp add: replace_servers_ignores_plugin_load)
  have p0: "prepare ?e0 run = Continue l tr1"
    using Continue by (simp add: prepare_ignores_plugin_load)
  have nl1: "\<forall>ev\<in>set tr1. \<not> is_plugin_load ev"
    using prepare_trace_no_plugin_load[of e run] Continue by simp
  have nlr: "\<forall>ev\<in>set trr. \<not> is_plugin_load ev"
    using replace_servers_trace_no_plugin_load[of e l run] r by simp
  have st: "startup_new e = Inr ?st"
    using prepare_Continue[OF Continue] by simp
  show ?thesis
  proof (cases "plugin_manager run1")
    case None
    have "tr = tr1 @ trr"
      using assms(2) Continue commit_assert_fails[OF r None]
      by (simp add: infinoted_config_reload_def)
    then have False using nl1 nlr assms(3) by auto
    then show ?thesis ..
  next
    case (Some old)
    let ?run2 = "run1\<lparr>directory := fst (install_storage l (directory run1))\<rparr>"
    let ?p = "propagate_sasl_context ?st' ?run2"
    let ?a = "E_log_error (log ?st) (''Failed to re-load plugins: '' @ message err)"
    let ?b = "E_log_error (log ?st)
                 ''Plugins are disabled. Please fix the problem and reload configuration again.''"
    let ?pre = "[E_object_unref (pm_id old)] @ snd (install_storage l (directory run1)) @
             [E_plugin_manager_new (new_plugin_manager_id e),
              E_plugin_manager_load (new_plugin_manager_id e) (plugin_path e)
                (plugins (options ?st)) False,
              E_options_drop_config_file]"
    have tr2: "step_trace (reload_plugins e l run1) = ?pre @ [?a, ?b]"
      using Some assms(1) by (simp add: reload_plugins_with_result log_load_failure_def)
    have res: "out = ReturnTrue"
      "run' = (fst ?p)\<lparr>plugin_manager := Some (new_plugin_manager e ?st), startup := ?st'\<rparr>"
      "tr = tr1 @ trr @ (?pre @ [?a, ?b]) @ snd ?p @ [E_startup_free (startup run)]"
      using assms(2) Continue commit_after_assert[OF r Some] tr2
      by (simp_all add: infinoted_config_reload_def)
    have res0: "infinoted_config_reload ?e0 run =
       (ReturnTrue,
        (fst ?p)\<lparr>plugin_manager := Some (new_plugin_manager ?e0 ?st), startup := ?st'\<rparr>,
        tr1 @ trr @ step_trace (reload_plugins ?e0 l run1) @ snd ?p @ [E_startup_free (startup run)])"
      using p0 commit_after_assert[OF r0 Some]
      by (simp add: infinoted_config_reload_def)
    have nlp: "\<forall>ev\<in>set (snd ?p). \<not> is_plugin_load ev"
      by (rule propagate_sasl_context_trace_no_plugin_load)
    have nls: "\<forall>ev\<in>set (snd (install_storage l (directory run1))). \<not> is_plugin_load ev"
      by (rule install_storage_trace_no_plugin_load)
    have ok: "\<not> ok"
      using assms(3) nl1 nlr nlp nls unfolding res(3) by auto
    have db: "directly_before ?a ?b tr"
    proof -
      have "tr = (tr1 @ trr @ ?pre) @ ?a # ?b # (snd ?p @ [E_startup_free (startup run)])"
        unfolding res(3) by simp
      then show ?thesis by (simp only: directly_before_mid)
    qed
    have pm: "pm_load_error (new_plugin_manager e ?st) = Some err"
      using assms(1) by (simp add: new_plugin_manager_def)
    show ?thesis
      using res(1) ok st db pm res0 unfolding res(2) by simp
  qed
qed


theorem plugin_load_failure_is_only_logged_witness:
  "plugin_manager_load env_plugin_fail =
     Some (plugin_manager_error INFINOTED_PLUGIN_MANAGER_ERROR_OPEN_FAILED ''cannot open help'') \<and>
   E_plugin_manager_load 56 ''/usr/lib/infinoted/plugins'' [''autosave'', ''help''] False
     \<in> set (snd (snd (infinoted_config_reload env_plugin_fail run0))) \<and>
   fst (infinoted_config_reload env_plugin_fail run0) = ReturnTrue \<and>
   startup_new env_plugin_fail = Inr startup_same_port \<and>
   plugin_manager (fst (snd (infinoted_config_reload env_plugin_fail run0))) =
     Some (new_plugin_manager env_plugin_fail startup_same_port) \<and>
   directly_before
     (E_log_error 6 ''Failed to re-load plugins: cannot open help'')
     (E_log_error 6 ''Plugins are disabled. Please fix the problem and reload configuration again.'')
     (snd (snd (infinoted_config_reload env_plugin_fail run0)))"
proof -
  have h1: "plugin_manager_load env_plugin_fail =
     Some (plugin_manager_error INFINOTED_PLUGIN_MANAGER_ERROR_OPEN_FAILED ''cannot open help'')"
    by (simp add: env_plugin_fail_def)
  have r: "infinoted_config_reload env_plugin_fail run0 =
             (fst (infinoted_config_reload env_plugin_fail run0),
              fst (snd (infinoted_config_reload env_plugin_fail run0)),
              snd (snd (infinoted_config_reload env_plugin_fail run0)))"
    by simp
  have h3: "E_plugin_manager_load 56 ''/usr/lib/infinoted/plugins'' [''autosave'', ''help''] False
     \<in> set (snd (snd (infinoted_config_reload env_plugin_fail run0)))"
    by (simp add: reload_defs example_defs Let_def)
  have s: "startup_new env_plugin_fail = Inr startup_same_port"
    "log startup_same_port = 6"
    "message (plugin_manager_error INFINOTED_PLUGIN_MANAGER_ERROR_OPEN_FAILED ''cannot open help'') =
       ''cannot open help''"
    by (simp_all add: example_defs)
  show ?thesis
    using plugin_load_failure_is_only_logged[OF h1 r h3] h1 h3 s by auto
qed

section \<open>The error kinds of plugin loading\<close>

lemma load_plugins_failures:
  "fst (load_plugins path names) =
     List.map_filter
       (\<lambda>n. case load_plugin path n of Inl err \<Rightarrow> Some (n, err) | Inr d \<Rightarrow> None) names"
  by (induction names) (auto simp: map_filter_simps split: sum.splits)

lemma load_plugins_instances:
  "snd (load_plugins path names) =
     List.map_filter
       (\<lambda>n. case load_plugin path n of Inl err \<Rightarrow> None | Inr d \<Rightarrow> Some d) names"
  by (induction names) (auto simp: map_filter_simps split: sum.splits)

lemma load_plugins_length:
  "length (fst (load_plugins path names)) + length (snd (load_plugins path names)) = length names"
  by (induction names) (auto split: sum.splits)

lemma load_plugins_failure_mem:
  "(n, err) \<in> set (fst (load_plugins path names)) \<longleftrightarrow>
   n \<in> set names \<and> load_plugin path n = Inl err"
  by (induction names) (auto split: sum.splits)

lemma load_plugin_kinds:
  "load_plugin path n = Inl err \<longleftrightarrow>
   (err = ModuleOpenFailed \<and> path n = None) \<or>
   (err = NoEntryPoint \<and> (\<exists>m. path n = Some m \<and> entry_point m = None)) \<or>
   (\<exists>m d msg. err = PluginInitFailed msg \<and> path n = Some m \<and> entry_point m = Some d \<and>
       on_initialize d = Some msg)"
  unfolding load_plugin_def by (auto split: option.splits)

text \<open>
  Claim C8, proved of the load operation as section 4.3 of the specification describes
  it. The errors of loading are of exactly three kinds: the module could not be opened,
  the module has no entry point, the plugin's \<^verbatim>\<open>initialize\<close> failed with a message.
  Each is reported with the name of the plugin it belongs to, once for every requested
  plugin that fails and in the order of the request, and all of them are gathered in the
  one result of the call. None stops the load: every requested plugin is accounted for,
  as a failure or as a live instance, and the instances are those of the plugins that
  did not fail. None stops the server either: however the caller renders the gathered
  failures as the error of the load call, the reload ends the way it ends when all
  plugins load.
\<close>

theorem plugin_loading_reports_three_error_kinds:
  "(\<forall>err. err = ModuleOpenFailed \<or> err = NoEntryPoint \<or> (\<exists>msg. err = PluginInitFailed msg)) \<and>
   (\<forall>n err. (n, err) \<in> set (fst (load_plugins path names)) \<longleftrightarrow>
       n \<in> set names \<and>
       ((err = ModuleOpenFailed \<and> path n = None) \<or>
        (err = NoEntryPoint \<and> (\<exists>m. path n = Some m \<and> entry_point m = None)) \<or>
        (\<exists>m d msg. err = PluginInitFailed msg \<and> path n = Some m \<and> entry_point m = Some d \<and>
            on_initialize d = Some msg))) \<and>
   fst (load_plugins path names) =
     List.map_filter
       (\<lambda>n. case load_plugin path n of Inl err \<Rightarrow> Some (n, err) | Inr d \<Rightarrow> None) names \<and>
   snd (load_plugins path names) =
     List.map_filter
       (\<lambda>n. case load_plugin path n of Inl err \<Rightarrow> None | Inr d \<Rightarrow> Some d) names \<and>
   length (fst (load_plugins path names)) + length (snd (load_plugins path names)) = length names \<and>
   fst (infinoted_config_reload
          (e\<lparr>plugin_manager_load := render (fst (load_plugins path names))\<rparr>) run) =
     fst (infinoted_config_reload (e\<lparr>plugin_manager_load := None\<rparr>) run)"
proof -
  have kinds: "err = ModuleOpenFailed \<or> err = NoEntryPoint \<or> (\<exists>msg. err = PluginInitFailed msg)"
    for err by (cases err) simp_all
  have mem: "(n, err) \<in> set (fst (load_plugins path names)) \<longleftrightarrow>
       n \<in> set names \<and>
       ((err = ModuleOpenFailed \<and> path n = None) \<or>
        (err = NoEntryPoint \<and> (\<exists>m. path n = Some m \<and> entry_point m = None)) \<or>
        (\<exists>m d msg. err = PluginInitFailed msg \<and> path n = Some m \<and> entry_point m = Some d \<and>
            on_initialize d = Some msg))" for n err
    unfolding load_plugins_failure_mem load_plugin_kinds by (rule refl)
  have rel: "fst (infinoted_config_reload
          (e\<lparr>plugin_manager_load := render (fst (load_plugins path names))\<rparr>) run) =
     fst (infinoted_config_reload (e\<lparr>plugin_manager_load := None\<rparr>) run)"
    using reload_ignores_plugin_load[where e=e and run=run]
    by simp
  show ?thesis
    by (intro conjI allI kinds mem rel load_plugins_failures load_plugins_instances
        load_plugins_length)
qed

theorem plugin_loading_reports_three_error_kinds_witness:
  "path0 ''help'' = None \<and>
   map_option entry_point (path0 ''broken'') = Some None \<and>
   map_option entry_point (path0 ''picky'') = Some (Some plugin_picky) \<and>
   on_initialize plugin_picky = Some ''unknown option'' \<and>
   fst (load_plugins path0 [''help'', ''autosave'', ''broken'', ''picky'']) =
     [(''help'', ModuleOpenFailed), (''broken'', NoEntryPoint),
      (''picky'', PluginInitFailed ''unknown option'')] \<and>
   snd (load_plugins path0 [''help'', ''autosave'', ''broken'', ''picky'']) = [plugin_autosave] \<and>
   fst (infinoted_config_reload
          (env0\<lparr>plugin_manager_load :=
             first_failure (fst (load_plugins path0 [''help'', ''autosave'', ''broken'', ''picky'']))\<rparr>)
          run0) = ReturnTrue"
proof -
  have p: "path0 ''help'' = None"
    "map_option entry_point (path0 ''broken'') = Some None"
    "map_option entry_point (path0 ''picky'') = Some (Some plugin_picky)"
    "on_initialize plugin_picky = Some ''unknown option''"
    by (simp_all add: path0_def plugin_picky_def)
  have l: "load_plugin path0 ''help'' = Inl ModuleOpenFailed"
    "load_plugin path0 ''autosave'' = Inr plugin_autosave"
    "load_plugin path0 ''broken'' = Inl NoEntryPoint"
    "load_plugin path0 ''picky'' = Inl (PluginInitFailed ''unknown option'')"
    by (simp_all add: load_plugin_def path0_def plugin_picky_def plugin_autosave_def)
  have ok: "fst (infinoted_config_reload (env0\<lparr>plugin_manager_load := None\<rparr>) run0) = ReturnTrue"
    by (simp add: reload_defs example_defs Let_def)
  show ?thesis
    using plugin_loading_reports_three_error_kinds[where path=path0
        and names="[''help'', ''autosave'', ''broken'', ''picky'']" and e=env0 and run=run0
        and render=first_failure] p l ok
    by (simp add: map_filter_simps)
qed

section \<open>A reload with a new port\<close>

lemma bind_new_servers_sockets:
  assumes "bind_new_servers e st cur = Continue b tr"
  shows "(\<forall>t. fst b = Some t \<longrightarrow>
            tcp_id t = new_tcp6_id e \<and> local_port t = port (options st) \<and> status t = TCP_BOUND) \<and>
         (\<forall>t. snd b = Some t \<longrightarrow>
            tcp_id t = new_tcp4_id e \<and> local_port t = port (options st) \<and> status t = TCP_BOUND)"
  using assms unfolding bind_new_servers_def
  by (auto simp: Let_def split: if_splits option.splits)

lemma open_new_servers_sockets:
  assumes "open_new_servers e st pm fs b = Continue b' tr"
  shows "(\<forall>t. fst b' = Some t \<longrightarrow> (\<exists>t0. fst b = Some t0 \<and> t = t0\<lparr>status := TCP_OPEN\<rparr>)) \<and>
         (\<forall>t. snd b' = Some t \<longrightarrow> (\<exists>t0. snd b = Some t0 \<and> t = t0\<lparr>status := TCP_OPEN\<rparr>))"
  using assms unfolding open_new_servers_def open_leg_def g_object_unref_local_def
  by (cases b) (auto simp: Let_def split: if_splits option.splits local_var.splits)

lemma prepare_sockets:
  assumes "prepare e run = Continue l tr"
  shows "(\<forall>t. l_tcp6 l = Some t \<longrightarrow>
            tcp_id t = new_tcp6_id e \<and> local_port t = port (options (l_startup l)) \<and>
            status t = TCP_OPEN) \<and>
         (\<forall>t. l_tcp4 l = Some t \<longrightarrow>
            tcp_id t = new_tcp4_id e \<and> local_port t = port (options (l_startup l)) \<and>
            status t = TCP_OPEN)"
proof -
  from assms obtain st t1 cur b fs b' t4 t5 t6 where
    bd: "bind_new_servers e st cur = Continue b t4" and
    op: "open_new_servers e st Uninitialised fs b = Continue b' t6" and
    l: "l = \<lparr>l_startup = st, l_tcp6 = fst b', l_tcp4 = snd b', l_storage = fs\<rparr>"
    unfolding prepare_def
    by (auto simp: bind_step_Continue_iff)
  show ?thesis
    using bind_new_servers_sockets[OF bd] open_new_servers_sockets[OF op] unfolding l
    by auto
qed

lemma replace_servers_new:
  assumes "l_tcp4 l \<noteq> None \<or> l_tcp6 l \<noteq> None"
    and "replace_servers e l run = (run1, tr)"
  shows "xmpp6 run1 = map_option (\<lambda>t. infd_xmpp_server_new (new_xmpp6_id e) t
             (security_policy (options (l_startup l))) (credentials (l_startup l)) None None)
           (l_tcp6 l) \<and>
         xmpp4 run1 = map_option (\<lambda>t. infd_xmpp_server_new (new_xmpp4_id e) t
             (security_policy (options (l_startup l))) (credentials (l_startup l)) None None)
           (l_tcp4 l) \<and>
         pool run1 =
           filter (\<lambda>i. map_option xmpp_id (xmpp6 run) \<noteq> Some i \<and>
                       map_option xmpp_id (xmpp4 run) \<noteq> Some i) (pool run) @
           (case l_tcp6 l of None \<Rightarrow> [] | Some t \<Rightarrow> [new_xmpp6_id e]) @
           (case l_tcp4 l of None \<Rightarrow> [] | Some t \<Rightarrow> [new_xmpp4_id e]) \<and>
         (\<forall>s. xmpp6 run = Some s \<or> xmpp4 run = Some s \<longrightarrow>
              E_pool_remove_server (xmpp_id s) \<in> set tr \<and> E_xml_server_close (xmpp_id s) \<in> set tr)"
  using assms unfolding replace_servers_def close_old_server_def install_new_server_def
  by (cases "xmpp6 run"; cases "xmpp4 run"; cases "l_tcp6 l"; cases "l_tcp4 l")
     (auto simp: removeAll_filter_not_eq)


text \<open>
  Claim C1, as the code has it. When the port has changed, every stage that can fail has
  passed and exactly one of the two new sockets has been bound and opened, the reload
  returns \<^verbatim>\<open>TRUE\<close> (the server has a plugin manager, as the function asserts). Both old
  listeners, of whichever family, are removed from the pool and closed. Afterwards the
  family whose socket opened has the new listener on the new port, the other family has
  no listener, and the pool holds the new listener in place of the old ones.
\<close>

theorem one_new_socket_replaces_both_old_listeners:
  assumes "prepare e run = Continue l tr1"
    and "current_port run = Some cur"
    and "port (options (l_startup l)) \<noteq> cur"
    and "(bind6 e = None \<and> open6 e = None) \<noteq> (bind4 e = None \<and> open4 e = None)"
    and "plugin_manager run \<noteq> None"
    and "infinoted_config_reload e run = (out, run', tr)"
  shows "out = ReturnTrue \<and>
         (\<forall>s. xmpp6 run = Some s \<or> xmpp4 run = Some s \<longrightarrow>
              E_pool_remove_server (xmpp_id s) \<in> set tr \<and> E_xml_server_close (xmpp_id s) \<in> set tr) \<and>
         (if bind6 e = None \<and> open6 e = None
          then (\<exists>x t. xmpp6 run' = Some x \<and> xmpp_id x = new_xmpp6_id e \<and> tcp_server x = Some t \<and>
                  tcp_id t = new_tcp6_id e \<and> local_port t = port (options (l_startup l)) \<and>
                  status t = TCP_OPEN) \<and>
               xmpp4 run' = None \<and>
               pool run' =
                 filter (\<lambda>i. map_option xmpp_id (xmpp6 run) \<noteq> Some i \<and>
                             map_option xmpp_id (xmpp4 run) \<noteq> Some i) (pool run) @
                 [new_xmpp6_id e]
          else (\<exists>x t. xmpp4 run' = Some x \<and> xmpp_id x = new_xmpp4_id e \<and> tcp_server x = Some t \<and>
                  tcp_id t = new_tcp4_id e \<and> local_port t = port (options (l_startup l)) \<and>
                  status t = TCP_OPEN) \<and>
               xmpp6 run' = None \<and>
               pool run' =
                 filter (\<lambda>i. map_option xmpp_id (xmpp6 run) \<noteq> Some i \<and>
                             map_option xmpp_id (xmpp4 run) \<noteq> Some i) (pool run) @
                 [new_xmpp4_id e])"
proof -
  let ?st = "l_startup l"
  let ?st' = "?st\<lparr>options := infinoted_options_drop_config_file (options ?st)\<rparr>"
  have s6: "l_tcp6 l \<noteq> None \<longleftrightarrow> bind6 e = None \<and> open6 e = None"
    and s4: "l_tcp4 l \<noteq> None \<longleftrightarrow> bind4 e = None \<and> open4 e = None"
    using prepare_Continue[OF assms(1)] assms(2,3) by auto
  have some: "l_tcp4 l \<noteq> None \<or> l_tcp6 l \<noteq> None"
    using s6 s4 assms(4) by blast
  obtain run1 trr where r: "replace_servers e l run = (run1, trr)"
    by (cases "replace_servers e l run")
  note rn = replace_servers_new[OF some r]
  obtain old where old: "plugin_manager run1 = Some old"
    using replace_servers_frame[OF r] assms(5) by auto
  let ?run2 = "run1\<lparr>directory := fst (install_storage l (directory run1))\<rparr>"
  obtain run3 tr3 where p: "propagate_sasl_context ?st' ?run2 = (run3, tr3)"
    by (cases "propagate_sasl_context ?st' ?run2")
  note ps = propagate_sasl_context_servers[OF p]
  have res: "out = ReturnTrue"
    "run' = run3\<lparr>plugin_manager := Some (new_plugin_manager e ?st), startup := ?st'\<rparr>"
    "tr = tr1 @ trr @ step_trace (reload_plugins e l run1) @ tr3 @ [E_startup_free (startup run)]"
    using assms(6,1) commit_after_assert[OF r old] p
    by (simp_all add: infinoted_config_reload_def)
  have closed: "\<forall>s. xmpp6 run = Some s \<or> xmpp4 run = Some s \<longrightarrow>
      E_pool_remove_server (xmpp_id s) \<in> set tr \<and> E_xml_server_close (xmpp_id s) \<in> set tr"
    using rn unfolding res(3) by auto
  have x6: "xmpp6 run' = map_option (\<lambda>s. s\<lparr>xs_sasl_context := sasl_context ?st',
             xs_sasl_mechanisms := sasl_mechanisms_for (sasl_context ?st')\<rparr>) (xmpp6 run1)"
    and x4: "xmpp4 run' = map_option (\<lambda>s. s\<lparr>xs_sasl_context := sasl_context ?st',
             xs_sasl_mechanisms := sasl_mechanisms_for (sasl_context ?st')\<rparr>) (xmpp4 run1)"
    and pl: "pool run' = pool run1"
    using ps unfolding res(2) by simp_all
  note sk = prepare_sockets[OF assms(1)]
  show ?thesis
  proof (cases "bind6 e = None \<and> open6 e = None")
    case True
    then obtain t where t: "l_tcp6 l = Some t" using s6 by auto
    have n4: "l_tcp4 l = None" using True assms(4) s4 by auto
    show ?thesis
      using True res(1) closed x6 x4 pl rn t n4 sk
      by (auto simp: infd_xmpp_server_new_def)
  next
    case False
    then have n6: "l_tcp6 l = None" using s6 by auto
    obtain t where t: "l_tcp4 l = Some t" using False assms(4) s4 by auto
    show ?thesis
      using False res(1) closed x6 x4 pl rn t n6 sk
      by (auto simp: infd_xmpp_server_new_def)
  qed
qed


theorem one_new_socket_replaces_both_old_listeners_witness:
  "current_port run0 = Some 6523 \<and> port (options startup1) = 6524 \<and>
   bind6 env_open4_fail = None \<and> open6 env_open4_fail = None \<and>
   bind4 env_open4_fail = None \<and> open4 env_open4_fail = Some (err_of ''listen v4'') \<and>
   fst (infinoted_config_reload env_open4_fail run0) = ReturnTrue \<and>
   map_option xmpp_id (xmpp6 (fst (snd (infinoted_config_reload env_open4_fail run0)))) = Some 54 \<and>
   xmpp4 (fst (snd (infinoted_config_reload env_open4_fail run0))) = None \<and>
   pool (fst (snd (infinoted_config_reload env_open4_fail run0))) = [54]"
proof -
  have p: "prepare env_open4_fail run0 =
     Continue \<lparr>l_startup = startup1,
                l_tcp6 = Some \<lparr>tcp_id = 50, local_address = Some any6, local_port = 6524,
                                status = TCP_OPEN\<rparr>,
                l_tcp4 = None, l_storage = None\<rparr>
       [E_startup_new, E_dh_params_ensure,
        E_tcp_server_new 50 (Some any6) 6524, E_tcp_server_bind 50 True,
        E_tcp_server_new 51 None 6524, E_tcp_server_bind 51 True,
        E_tcp_server_open 50 True, E_tcp_server_open 51 False, E_object_unref 51]"
    by (simp add: reload_defs example_defs Let_def)
  have h: "current_port run0 = Some 6523" "port (options startup1) = 6524"
    "bind6 env_open4_fail = None" "open6 env_open4_fail = None"
    "bind4 env_open4_fail = None" "open4 env_open4_fail = Some (err_of ''listen v4'')"
    "plugin_manager run0 \<noteq> None" "new_xmpp6_id env_open4_fail = 54"
    by (simp_all add: current_port_def server_tcp_def example_defs)
  have r: "infinoted_config_reload env_open4_fail run0 =
             (fst (infinoted_config_reload env_open4_fail run0),
              fst (snd (infinoted_config_reload env_open4_fail run0)),
              snd (snd (infinoted_config_reload env_open4_fail run0)))"
    by simp
  have pl: "pool run0 = [10, 12]" "xmpp6 run0 = Some old6" "xmpp4 run0 = Some old4"
    "xmpp_id old6 = 10" "xmpp_id old4 = 12"
    by (simp_all add: example_defs)
  show ?thesis
    using one_new_socket_replaces_both_old_listeners[OF p h(1) _ _ h(7) r] h pl
    by auto
qed

theorem old_listener_of_failing_family_counterexample:
  "xmpp4 run0 = Some old4 \<and> xmpp_id old4 = 12 \<and>
   bind6 env_open4_fail = None \<and> open6 env_open4_fail = None \<and>
   bind4 env_open4_fail = None \<and> open4 env_open4_fail = Some (err_of ''listen v4'') \<and>
   fst (infinoted_config_reload env_open4_fail run0) = ReturnTrue \<and>
   xmpp4 (fst (snd (infinoted_config_reload env_open4_fail run0))) = None \<and>
   E_xml_server_close 12 \<in> set (snd (snd (infinoted_config_reload env_open4_fail run0))) \<and>
   12 \<notin> set (pool (fst (snd (infinoted_config_reload env_open4_fail run0))))"
  by (simp add: reload_defs example_defs Let_def)

section \<open>Binding the new sockets\<close>

lemma prepare_until_bind:
  assumes "load_startup e = Continue st t1"
    and "\<not> listen_address_changed (ip_address_collate e)
            (listen_address (options st)) (listen_address (options (startup run)))"
    and "current_port run = Some cur"
  shows "prepare e run =
           bind_step (Continue () t1) (\<lambda>_.
           bind_step (bind_new_servers e st cur) (\<lambda>bound.
           bind_step (swap_storage e run st Uninitialised) (\<lambda>fs.
           bind_step (open_new_servers e st Uninitialised fs bound) (\<lambda>opened.
           Continue \<lparr>l_startup = st, l_tcp6 = fst opened, l_tcp4 = snd opened, l_storage = fs\<rparr> []))))"
proof -
  have c: "check_listen_address e run st = Continue () []"
    using assms(2) by (simp add: check_listen_address_def)
  have f: "find_current_port run = Continue cur []"
    using assms(3) by (simp add: find_current_port_def)
  show ?thesis
    unfolding prepare_def assms(1) 
    by (simp add: c f split: step.splits)
qed

text \<open>
  Claim C5, as the code has it. When the port has changed and the reload has come as far
  as binding, a bind failure on one leg does not end the reload: the bind stage goes on
  with exactly the legs that were bound. If both legs fail to bind, the reload returns
  \<^verbatim>\<open>FALSE\<close> with the error of the v4 bind, which is the second one attempted; the
  error of the v6 bind is dropped at the call. The run structure is then the one that was
  passed in, and the only listener calls made are the creation and the failed binding of
  the two new sockets.
\<close>

theorem bind_failure_on_one_leg_is_tolerated:
  assumes "load_startup e = Continue st t1"
    and "\<not> listen_address_changed (ip_address_collate e)
            (listen_address (options st)) (listen_address (options (startup run)))"
    and "current_port run = Some cur"
    and "port (options st) \<noteq> cur"
  shows "(bind6 e = None \<or> bind4 e = None \<longrightarrow>
            (\<exists>b tr. bind_new_servers e st cur = Continue b tr \<and>
               (fst b \<noteq> None \<longleftrightarrow> bind6 e = None) \<and> (snd b \<noteq> None \<longleftrightarrow> bind4 e = None))) \<and>
         (\<forall>e6 e4. bind6 e = Some e6 \<and> bind4 e = Some e4 \<longrightarrow>
            fst (infinoted_config_reload e run) = ReturnFalse (Some e4) \<and>
            fst (snd (infinoted_config_reload e run)) = run \<and>
            filter touches_listeners (snd (snd (infinoted_config_reload e run))) =
              [E_tcp_server_new (new_tcp6_id e)
                 (case listen_address (options st) of
                    None \<Rightarrow> Some (inf_ip_address_new_raw6 INFINOTED_CONFIG_RELOAD_IPV6_ANY_ADDR)
                  | Some a \<Rightarrow> Some a)
                 (port (options st)),
               E_tcp_server_bind (new_tcp6_id e) False,
               E_tcp_server_new (new_tcp4_id e) (listen_address (options st)) (port (options st)),
               E_tcp_server_bind (new_tcp4_id e) False])"
proof -
  have nt: "filter touches_listeners t1 = []"
    using assms(1) unfolding load_startup_def
    by (auto split: sum.splits option.splits)
  have a: "bind6 e = None \<or> bind4 e = None \<longrightarrow>
            (\<exists>b tr. bind_new_servers e st cur = Continue b tr \<and>
               (fst b \<noteq> None \<longleftrightarrow> bind6 e = None) \<and> (snd b \<noteq> None \<longleftrightarrow> bind4 e = None))"
    using assms(4) unfolding bind_new_servers_def
    by (auto simp: Let_def split: option.splits)
  have b: "fst (infinoted_config_reload e run) = ReturnFalse (Some e4) \<and>
            fst (snd (infinoted_config_reload e run)) = run \<and>
            filter touches_listeners (snd (snd (infinoted_config_reload e run))) =
              [E_tcp_server_new (new_tcp6_id e)
                 (case listen_address (options st) of
                    None \<Rightarrow> Some (inf_ip_address_new_raw6 INFINOTED_CONFIG_RELOAD_IPV6_ANY_ADDR)
                  | Some a \<Rightarrow> Some a)
                 (port (options st)),
               E_tcp_server_bind (new_tcp6_id e) False,
               E_tcp_server_new (new_tcp4_id e) (listen_address (options st)) (port (options st)),
               E_tcp_server_bind (new_tcp4_id e) False]"
    if "bind6 e = Some e6" "bind4 e = Some e4" for e6 e4
  proof -
    have "bind_new_servers e st cur =
            Return (ReturnFalse (Some e4))
              ([E_tcp_server_new (new_tcp6_id e)
                 (case listen_address (options st) of
                    None \<Rightarrow> Some (inf_ip_address_new_raw6 INFINOTED_CONFIG_RELOAD_IPV6_ANY_ADDR)
                  | Some a \<Rightarrow> Some a)
                 (port (options st)),
               E_tcp_server_bind (new_tcp6_id e) False, E_object_unref (new_tcp6_id e),
               E_tcp_server_new (new_tcp4_id e) (listen_address (options st)) (port (options st)),
               E_tcp_server_bind (new_tcp4_id e) False, E_object_unref (new_tcp4_id e),
               E_startup_free st])"
      using that assms(4) unfolding bind_new_servers_def by (simp add: Let_def)
    then show ?thesis
      using nt by (simp add: infinoted_config_reload_def prepare_until_bind[OF assms(1-3)])
  qed
  show ?thesis using a b by blast
qed


theorem bind_failure_on_one_leg_is_tolerated_witness:
  "load_startup env_bind_fail = Continue startup1 [E_startup_new, E_dh_params_ensure] \<and>
   load_startup env_bind6_fail = Continue startup1 [E_startup_new, E_dh_params_ensure] \<and>
   current_port run0 = Some 6523 \<and> port (options startup1) = 6524 \<and>
   bind6 env_bind6_fail = Some (err_of ''bind v6'') \<and> bind4 env_bind6_fail = None \<and>
   bind_new_servers env_bind6_fail startup1 6523 =
     Continue
       (None, Some \<lparr>tcp_id = 51, local_address = None, local_port = 6524, status = TCP_BOUND\<rparr>)
       [E_tcp_server_new 50 (Some any6) 6524, E_tcp_server_bind 50 False, E_object_unref 50,
        E_tcp_server_new 51 None 6524, E_tcp_server_bind 51 True] \<and>
   fst (infinoted_config_reload env_bind6_fail run0) = ReturnTrue \<and>
   bind6 env_bind_fail = Some (err_of ''bind v6'') \<and>
   bind4 env_bind_fail = Some (err_of ''bind v4'') \<and>
   fst (infinoted_config_reload env_bind_fail run0) = ReturnFalse (Some (err_of ''bind v4'')) \<and>
   fst (snd (infinoted_config_reload env_bind_fail run0)) = run0"
proof -
  have l: "load_startup env_bind_fail = Continue startup1 [E_startup_new, E_dh_params_ensure]"
    "load_startup env_bind6_fail = Continue startup1 [E_startup_new, E_dh_params_ensure]"
    by (simp_all add: load_startup_def example_defs)
  have a: "\<not> listen_address_changed (ip_address_collate env_bind_fail)
              (listen_address (options startup1)) (listen_address (options (startup run0)))"
    "\<not> listen_address_changed (ip_address_collate env_bind6_fail)
              (listen_address (options startup1)) (listen_address (options (startup run0)))"
    by (simp_all add: listen_address_changed_def example_defs)
  have p: "current_port run0 = Some 6523" "port (options startup1) = 6524"
    by (simp_all add: current_port_def server_tcp_def example_defs)
  have n: "port (options startup1) \<noteq> 6523"
    using p by simp
  have b: "bind6 env_bind6_fail = Some (err_of ''bind v6'')" "bind4 env_bind6_fail = None"
    "bind6 env_bind_fail = Some (err_of ''bind v6'')"
    "bind4 env_bind_fail = Some (err_of ''bind v4'')"
    by (simp_all add: example_defs)
  have v: "bind_new_servers env_bind6_fail startup1 6523 =
     Continue
       (None, Some \<lparr>tcp_id = 51, local_address = None, local_port = 6524, status = TCP_BOUND\<rparr>)
       [E_tcp_server_new 50 (Some any6) 6524, E_tcp_server_bind 50 False, E_object_unref 50,
        E_tcp_server_new 51 None 6524, E_tcp_server_bind 51 True]"
    "fst (infinoted_config_reload env_bind6_fail run0) = ReturnTrue"
    by (simp_all add: reload_defs example_defs Let_def)
  show ?thesis
    using bind_failure_on_one_leg_is_tolerated[OF l(1) a(1) p(1) n]
      bind_failure_on_one_leg_is_tolerated[OF l(2) a(2) p(1) n] l p b v
    by simp
qed

theorem first_bind_error_counterexample:
  "bind6 env_bind_fail = Some (err_of ''bind v6'') \<and>
   bind4 env_bind_fail = Some (err_of ''bind v4'') \<and>
   fst (infinoted_config_reload env_bind_fail run0) = ReturnFalse (Some (err_of ''bind v4'')) \<and>
   fst (infinoted_config_reload env_bind_fail run0) \<noteq> ReturnFalse (Some (err_of ''bind v6''))"
  by (simp add: reload_defs example_defs Let_def)

section \<open>The two late exits\<close>

lemma open_new_servers_all_fail:
  assumes "fst b \<noteq> None \<or> snd b \<noteq> None"
    and "fst b \<noteq> None \<longrightarrow> open6 e \<noteq> None"
    and "snd b \<noteq> None \<longrightarrow> open4 e \<noteq> None"
  shows "(\<exists>tr. open_new_servers e st Uninitialised fs b =
                 Return (UnrefUninitialised ''plugin_manager'') tr) \<and>
         (\<exists>tr. open_new_servers e st (Assigned m) fs b =
                 Return (ReturnFalse (if fst b \<noteq> None then open6 e else open4 e)) tr)"
  using assms unfolding open_new_servers_def open_leg_def g_object_unref_local_def
  by (cases b) (auto simp: Let_def split: option.splits)

text \<open>
  Claim C3 reads: if the port changed and both attempts to open a new socket fail, the
  reload returns an error and the old listeners stay as they are. In the function, when
  every socket that was bound fails to open, the run structure is indeed still the one
  passed in and the first open error is ready to be returned; but on the way out (line 272)
  the function releases the local \<^verbatim>\<open>plugin_manager\<close>, which is assigned for the first
  time at line 416. The call therefore ends in that release and not in a return. With a
  manager in the variable the same stage returns \<^verbatim>\<open>FALSE\<close> with the error of the first
  open that failed.
\<close>

theorem both_opens_fail_unassigned_plugin_manager:
  assumes "load_startup e = Continue st t1"
    and "\<not> listen_address_changed (ip_address_collate e)
            (listen_address (options st)) (listen_address (options (startup run)))"
    and "current_port run = Some cur"
    and "bind_new_servers e st cur = Continue b t4"
    and "swap_storage e run st Uninitialised = Continue fs t5"
    and "fst b \<noteq> None \<or> snd b \<noteq> None"
    and "fst b \<noteq> None \<longrightarrow> open6 e \<noteq> None"
    and "snd b \<noteq> None \<longrightarrow> open4 e \<noteq> None"
  shows "fst (infinoted_config_reload e run) = UnrefUninitialised ''plugin_manager'' \<and>
         fst (snd (infinoted_config_reload e run)) = run \<and>
         (\<exists>tr. open_new_servers e st (Assigned m) fs b =
                 Return (ReturnFalse (if fst b \<noteq> None then open6 e else open4 e)) tr)"
proof -
  obtain tr where o: "open_new_servers e st Uninitialised fs b =
                        Return (UnrefUninitialised ''plugin_manager'') tr"
    using open_new_servers_all_fail[OF assms(6-8)] by blast
  have "prepare e run = Return (UnrefUninitialised ''plugin_manager'') (t1 @ t4 @ t5 @ tr)"
    by (simp add: prepare_until_bind[OF assms(1-3)] assms(4,5) o)
  then show ?thesis
    using open_new_servers_all_fail[OF assms(6-8)]
    by (simp add: infinoted_config_reload_def)
qed

theorem both_opens_fail_unassigned_plugin_manager_witness:
  "open6 env_open_fail = Some (err_of ''listen v6'') \<and>
   open4 env_open_fail = Some (err_of ''listen v4'') \<and>
   infinoted_config_reload env_open_fail run0 =
     (UnrefUninitialised ''plugin_manager'', run0,
      [E_startup_new, E_dh_params_ensure,
       E_tcp_server_new 50 (Some any6) 6524, E_tcp_server_bind 50 True,
       E_tcp_server_new 51 None 6524, E_tcp_server_bind 51 True,
       E_tcp_server_open 50 False, E_object_unref 50,
       E_tcp_server_open 51 False, E_object_unref 51]) \<and>
   open_new_servers env_open_fail startup1 (Assigned manager0) None
     (Some \<lparr>tcp_id = 50, local_address = Some any6, local_port = 6524, status = TCP_BOUND\<rparr>,
      Some \<lparr>tcp_id = 51, local_address = None, local_port = 6524, status = TCP_BOUND\<rparr>) =
     Return (ReturnFalse (Some (err_of ''listen v6'')))
       [E_tcp_server_open 50 False, E_object_unref 50,
        E_tcp_server_open 51 False, E_object_unref 51, E_object_unref 40,
        E_startup_free startup1]"
proof -
  let ?b = "(Some \<lparr>tcp_id = 50, local_address = Some any6, local_port = 6524, status = TCP_BOUND\<rparr>,
             Some \<lparr>tcp_id = 51, local_address = None, local_port = 6524, status = TCP_BOUND\<rparr>)"
  have l: "load_startup env_open_fail = Continue startup1 [E_startup_new, E_dh_params_ensure]"
    by (simp add: load_startup_def example_defs)
  have a: "\<not> listen_address_changed (ip_address_collate env_open_fail)
              (listen_address (options startup1)) (listen_address (options (startup run0)))"
    by (simp add: listen_address_changed_def example_defs)
  have p: "current_port run0 = Some 6523"
    by (simp add: current_port_def server_tcp_def example_defs)
  have b: "bind_new_servers env_open_fail startup1 6523 =
             Continue ?b
               [E_tcp_server_new 50 (Some any6) 6524, E_tcp_server_bind 50 True,
                E_tcp_server_new 51 None 6524, E_tcp_server_bind 51 True]"
    by (simp add: bind_new_servers_def example_defs Let_def)
  have sw: "swap_storage env_open_fail run0 startup1 Uninitialised = Continue None []"
    by (simp add: swap_storage_def example_defs)
  have o: "open6 env_open_fail = Some (err_of ''listen v6'')"
    "open4 env_open_fail = Some (err_of ''listen v4'')"
    by (simp_all add: example_defs)
  have h: "fst ?b \<noteq> None \<or> snd ?b \<noteq> None" "fst ?b \<noteq> None \<longrightarrow> open6 env_open_fail \<noteq> None"
    "snd ?b \<noteq> None \<longrightarrow> open4 env_open_fail \<noteq> None"
    using o by simp_all
  have v: "snd (snd (infinoted_config_reload env_open_fail run0)) =
      [E_startup_new, E_dh_params_ensure,
       E_tcp_server_new 50 (Some any6) 6524, E_tcp_server_bind 50 True,
       E_tcp_server_new 51 None 6524, E_tcp_server_bind 51 True,
       E_tcp_server_open 50 False, E_object_unref 50,
       E_tcp_server_open 51 False, E_object_unref 51]"
    "open_new_servers env_open_fail startup1 (Assigned manager0) None ?b =
     Return (ReturnFalse (Some (err_of ''listen v6'')))
       [E_tcp_server_open 50 False, E_object_unref 50,
        E_tcp_server_open 51 False, E_object_unref 51, E_object_unref 40,
        E_startup_free startup1]"
    by (simp_all add: reload_defs example_defs Let_def)
  have "infinoted_config_reload env_open_fail run0 =
          (fst (infinoted_config_reload env_open_fail run0),
           fst (snd (infinoted_config_reload env_open_fail run0)),
           snd (snd (infinoted_config_reload env_open_fail run0)))"
    by simp
  then show ?thesis
    using both_opens_fail_unassigned_plugin_manager[OF l a p b sw h, of manager0] o v
    by simp
qed

text \<open>
  Claim C4 reads: the storage is swapped only when the root directory differs, and a
  failure to build the new storage ends the reload cleanly, without a crash. In the
  function the first half holds: with the same root directory the storage stage makes no
  call at all, and with a new one that can be set up it hands on the new storage and
  account storage. When \<^verbatim>\<open>infd_filesystem_account_storage_set_filesystem\<close> fails, the
  run structure is still the one passed in, but the exit (line 238) again releases the
  local \<^verbatim>\<open>plugin_manager\<close> before its first assignment, so the call ends there and not
  in the return of \<^verbatim>\<open>FALSE\<close> that follows. With a manager in the variable the stage
  returns \<^verbatim>\<open>FALSE\<close> with the storage error.
\<close>

theorem storage_failure_unassigned_plugin_manager:
  assumes "load_startup e = Continue st t1"
    and "\<not> listen_address_changed (ip_address_collate e)
            (listen_address (options st)) (listen_address (options (startup run)))"
    and "current_port run = Some cur"
    and "bind_new_servers e st cur = Continue b t4"
    and "storage (directory run) = FilesystemStorage sid root"
  shows "(root = root_directory (options st) \<longrightarrow> swap_storage e run st pm = Continue None []) \<and>
         (root \<noteq> root_directory (options st) \<and> set_filesystem e = None \<longrightarrow>
            swap_storage e run st pm =
              Continue (Some (new_storage_id e, new_account_storage_id e))
                [E_filesystem_storage_new (new_storage_id e) (root_directory (options st)),
                 E_filesystem_account_storage_new (new_account_storage_id e),
                 E_account_storage_set_filesystem (new_account_storage_id e) (new_storage_id e) True]) \<and>
         (\<forall>err. root \<noteq> root_directory (options st) \<and> set_filesystem e = Some err \<longrightarrow>
            fst (infinoted_config_reload e run) = UnrefUninitialised ''plugin_manager'' \<and>
            fst (snd (infinoted_config_reload e run)) = run \<and>
            (\<exists>tr. swap_storage e run st (Assigned m) = Return (ReturnFalse (Some err)) tr))"
proof -
  have a: "root = root_directory (options st) \<longrightarrow> swap_storage e run st pm = Continue None []"
    using assms(5) by (simp add: swap_storage_def)
  have b: "root \<noteq> root_directory (options st) \<and> set_filesystem e = None \<longrightarrow>
            swap_storage e run st pm =
              Continue (Some (new_storage_id e, new_account_storage_id e))
                [E_filesystem_storage_new (new_storage_id e) (root_directory (options st)),
                 E_filesystem_account_storage_new (new_account_storage_id e),
                 E_account_storage_set_filesystem (new_account_storage_id e) (new_storage_id e) True]"
    using assms(5) by (simp add: swap_storage_def Let_def)
  have c: "fst (infinoted_config_reload e run) = UnrefUninitialised ''plugin_manager'' \<and>
            fst (snd (infinoted_config_reload e run)) = run \<and>
            (\<exists>tr. swap_storage e run st (Assigned m) = Return (ReturnFalse (Some err)) tr)"
    if "root \<noteq> root_directory (options st)" "set_filesystem e = Some err" for err
  proof -
    have "\<exists>tr. swap_storage e run st Uninitialised =
                          Return (UnrefUninitialised ''plugin_manager'') tr"
      using assms(5) that by (simp add: swap_storage_def Let_def g_object_unref_local_def)
    then obtain tr where s: "swap_storage e run st Uninitialised =
                          Return (UnrefUninitialised ''plugin_manager'') tr"
      by blast
    have i: "\<exists>tr. swap_storage e run st (Assigned m) = Return (ReturnFalse (Some err)) tr"
      using assms(5) that by (simp add: swap_storage_def Let_def g_object_unref_local_def)
    have "prepare e run = Return (UnrefUninitialised ''plugin_manager'') (t1 @ t4 @ tr)"
      by (simp add: prepare_until_bind[OF assms(1-3)] assms(4) s)
    then show ?thesis using i by (simp add: infinoted_config_reload_def)
  qed
  show ?thesis using a b c by blast
qed


theorem storage_failure_unassigned_plugin_manager_witness:
  "storage (directory run0) = FilesystemStorage 21 ''/srv/infinote'' \<and>
   root_directory (options startup_new_root) = ''/srv/other'' \<and>
   set_filesystem env_storage_fail = Some (err_of ''no such directory'') \<and>
   infinoted_config_reload env_storage_fail run0 =
     (UnrefUninitialised ''plugin_manager'', run0,
      [E_startup_new, E_dh_params_ensure,
       E_filesystem_storage_new 52 ''/srv/other'', E_filesystem_account_storage_new 53,
       E_account_storage_set_filesystem 53 52 False, E_object_unref 53, E_object_unref 52]) \<and>
   swap_storage env0 run0 startup1 Uninitialised = Continue None []"
proof -
  have l: "load_startup env_storage_fail =
             Continue startup_new_root [E_startup_new, E_dh_params_ensure]"
    by (simp add: load_startup_def example_defs)
  have a: "\<not> listen_address_changed (ip_address_collate env_storage_fail)
              (listen_address (options startup_new_root))
              (listen_address (options (startup run0)))"
    by (simp add: listen_address_changed_def example_defs)
  have p: "current_port run0 = Some 6523"
    by (simp add: current_port_def server_tcp_def example_defs)
  have b: "bind_new_servers env_storage_fail startup_new_root 6523 = Continue (None, None) []"
    by (simp add: bind_new_servers_def example_defs)
  have s: "storage (directory run0) = FilesystemStorage 21 ''/srv/infinote''"
    "root_directory (options startup_new_root) = ''/srv/other''"
    "set_filesystem env_storage_fail = Some (err_of ''no such directory'')"
    "root_directory (options startup1) = ''/srv/infinote''"
    by (simp_all add: example_defs)
  have l0: "load_startup env0 = Continue startup1 [E_startup_new, E_dh_params_ensure]"
    by (simp add: load_startup_def example_defs)
  have a0: "\<not> listen_address_changed (ip_address_collate env0)
              (listen_address (options startup1)) (listen_address (options (startup run0)))"
    by (simp add: listen_address_changed_def example_defs)
  have b0: "bind_new_servers env0 startup1 6523 =
             Continue
               (Some \<lparr>tcp_id = 50, local_address = Some any6, local_port = 6524, status = TCP_BOUND\<rparr>,
                Some \<lparr>tcp_id = 51, local_address = None, local_port = 6524, status = TCP_BOUND\<rparr>)
               [E_tcp_server_new 50 (Some any6) 6524, E_tcp_server_bind 50 True,
                E_tcp_server_new 51 None 6524, E_tcp_server_bind 51 True]"
    by (simp add: bind_new_servers_def example_defs Let_def)
  have v: "snd (snd (infinoted_config_reload env_storage_fail run0)) =
      [E_startup_new, E_dh_params_ensure,
       E_filesystem_storage_new 52 ''/srv/other'', E_filesystem_account_storage_new 53,
       E_account_storage_set_filesystem 53 52 False, E_object_unref 53, E_object_unref 52]"
    by (simp add: reload_defs example_defs Let_def)
  have "infinoted_config_reload env_storage_fail run0 =
          (fst (infinoted_config_reload env_storage_fail run0),
           fst (snd (infinoted_config_reload env_storage_fail run0)),
           snd (snd (infinoted_config_reload env_storage_fail run0)))"
    by simp
  then show ?thesis
    using storage_failure_unassigned_plugin_manager[OF l a p b s(1),
        where pm=Uninitialised and m=manager0]
      storage_failure_unassigned_plugin_manager[OF l0 a0 p b0 s(1),
        where pm=Uninitialised and m=manager0] s v
    by simp
qed

end
